theory Spec2Isabelle
  imports Complex_Main
begin

section \<open>Collaborators: camera, player, random draws, the scene clock\<close>

text \<open>
  The two NPC classes of the game (\<^verbatim>\<open>js/sprites/OldMan.js\<close> and the Bully class) are
  Phaser sprites driven by the scene's clock (\<^verbatim>\<open>scene.time.delayedCall\<close>,
  \<^verbatim>\<open>scene.time.addEvent\<close>) and by a per-frame \<^verbatim>\<open>update(player)\<close>. Coordinates are
  JavaScript numbers. The state machine below carries them as reals; the two exit tests
  of \<^verbatim>\<open>update\<close> are also given as the source computes them, in IEEE 754 double precision
  (section on double precision), since a claim about translating coordinates depends on
  the rounding.
\<close>

record camera =
  scrollX :: real
  width :: real

text \<open>
  What a callback reads from its surroundings when it runs: \<^verbatim>\<open>scene.cameras.main\<close>,
  \<^verbatim>\<open>scene.student\<close> (only its x is ever read; \<open>None\<close> when absent), the raw draw behind
  \<^verbatim>\<open>Phaser.Math.Between\<close> and the value of \<^verbatim>\<open>Math.random()\<close>.
\<close>

record env =
  cam :: camera
  student :: "real option"
  randomInt :: nat
  randomUnit :: real

definition Between :: "int \<Rightarrow> int \<Rightarrow> nat \<Rightarrow> int" where
  "Between lo hi r = lo + int r mod (hi - lo + 1)"

datatype timer_status = Pending | Expired | Removed

record 'cb timer =
  delay :: int
  loop :: bool
  callback :: 'cb
  status :: timer_status

text \<open>The clock is the list of every timer event ever created; a handle is its index.\<close>

definition addTimer :: "int \<Rightarrow> bool \<Rightarrow> 'cb \<Rightarrow> 'cb timer list \<Rightarrow> 'cb timer list" where
  "addTimer d l cb clk = clk @ [\<lparr>delay = d, loop = l, callback = cb, status = Pending\<rparr>]"

definition removeTimer :: "nat \<Rightarrow> 'cb timer list \<Rightarrow> 'cb timer list" where
  "removeTimer h clk =
     (if h < length clk then clk[h := (clk ! h)\<lparr>status := Removed\<rparr>] else clk)"

definition expireTimer :: "nat \<Rightarrow> 'cb timer list \<Rightarrow> 'cb timer list" where
  "expireTimer h clk =
     (if h < length clk \<and> \<not> loop (clk ! h) then clk[h := (clk ! h)\<lparr>status := Expired\<rparr>] else clk)"

definition isPending :: "nat \<Rightarrow> 'cb timer list \<Rightarrow> bool" where
  "isPending h clk = (h < length clk \<and> status (clk ! h) = Pending)"

section \<open>State shared by both sprites\<close>

datatype patrol_state = Waiting | Entering | Patrolling | Charging | Backpain | Exiting

text \<open>
  The sprite properties both classes use. \<open>hasBody\<close> and \<open>hasScene\<close> stand for
  \<^verbatim>\<open>this.body\<close> and \<^verbatim>\<open>this.scene\<close> being present; the engine's \<^verbatim>\<open>destroy()\<close> clears them
  together with \<^verbatim>\<open>active\<close> and \<^verbatim>\<open>visible\<close>. Tweens (the walk bob of \<open>y\<close>, the scale
  animations) are not part of the state.
\<close>

record npc =
  sprite_x :: real
  sprite_y :: real
  groundY :: real
  velocityX :: real
  flipX :: bool
  visible :: bool
  active :: bool
  hasBody :: bool
  hasScene :: bool
  currentState :: patrol_state
  patrolDirection :: int
  firstWarningShown :: bool
  throwTimer :: "nat option"

definition destroy :: "'a npc_scheme \<Rightarrow> 'a npc_scheme" where
  "destroy s = s\<lparr>active := False, visible := False, hasBody := False, hasScene := False\<rparr>"

section \<open>The camera-frame helper as the specification words it\<close>

datatype side = Left | Right

definition spec_spawnX :: "camera \<Rightarrow> side \<Rightarrow> real \<Rightarrow> real" where
  "spec_spawnX frame sd offset =
     (case sd of Right \<Rightarrow> scrollX frame + width frame + offset
               | Left \<Rightarrow> scrollX frame - offset)"

definition spec_hasExitedLeft :: "camera \<Rightarrow> real \<Rightarrow> real \<Rightarrow> bool" where
  "spec_hasExitedLeft frame x buffer = (x < scrollX frame - buffer)"

definition spec_hasExitedRight :: "camera \<Rightarrow> real \<Rightarrow> real \<Rightarrow> bool" where
  "spec_hasExitedRight frame x buffer = (x > scrollX frame + width frame + buffer)"

definition inViewport :: "camera \<Rightarrow> real \<Rightarrow> bool" where
  "inViewport frame x = (scrollX frame \<le> x \<and> x \<le> scrollX frame + width frame)"

section \<open>OldMan\<close>

definition OldMan_THROW_INTERVAL :: int where "OldMan_THROW_INTERVAL = 2500"
definition OldMan_PATROL_SPEED :: real where "OldMan_PATROL_SPEED = 60"
definition OldMan_SPAWN_OFFSET :: real where "OldMan_SPAWN_OFFSET = 100"
definition OldMan_SCREEN_LEFT :: real where "OldMan_SCREEN_LEFT = - 80"
definition OldMan_SCREEN_RIGHT :: real where "OldMan_SCREEN_RIGHT = 880"
definition PATROL_TIME_MIN :: int where "PATROL_TIME_MIN = 8000"
definition PATROL_TIME_MAX :: int where "PATROL_TIME_MAX = 12000"
definition BACKPAIN_TIME_MIN :: int where "BACKPAIN_TIME_MIN = 6000"
definition BACKPAIN_TIME_MAX :: int where "BACKPAIN_TIME_MAX = 10000"
definition SQUIRREL_DELAY :: int where "SQUIRREL_DELAY = 1000"
definition OldMan_REENTRY_TIME_MIN :: int where "OldMan_REENTRY_TIME_MIN = 5000"
definition OldMan_REENTRY_TIME_MAX :: int where "OldMan_REENTRY_TIME_MAX = 8000"
definition MAX_BACKPAIN_PER_PATROL :: nat where "MAX_BACKPAIN_PER_PATROL = 1"

text \<open>
  One constructor per closure the class hands to the clock. The definitions of this
  section give what each method does on a live sprite, whose scene and body are present
  so that no property access fails. What the same closures do on a disposed sprite,
  where \<^verbatim>\<open>this.scene\<close> and \<^verbatim>\<open>this.body\<close> are gone and none of them tests for it, is the
  subject of the section on disposed sprites.
\<close>

datatype om_callback =
    OmCbStart          \<comment> \<open>constructor, 2000 ms: \<^verbatim>\<open>startEntering()\<close>\<close>
  | OmCbEnterTransit   \<comment> \<open>\<^verbatim>\<open>startEntering\<close>, 1000 ms: position and start walking\<close>
  | OmCbPatrol         \<comment> \<open>inside the former, 1500 ms: \<^verbatim>\<open>startPatrolling()\<close>\<close>
  | OmCbPhase          \<comment> \<open>\<^verbatim>\<open>startPatrolling\<close>, 8 to 12 s: \<^verbatim>\<open>startBackPain()\<close>\<close>
  | OmCbSquirrel       \<comment> \<open>\<^verbatim>\<open>startBackPain\<close>, 1000 ms: squirrel if still in back pain\<close>
  | OmCbRecover        \<comment> \<open>\<^verbatim>\<open>startBackPain\<close>, 6 to 10 s: \<^verbatim>\<open>recoverFromBackPain()\<close>\<close>
  | OmCbReentry        \<comment> \<open>\<^verbatim>\<open>startWaiting\<close>, 5 to 8 s: \<^verbatim>\<open>prepareReentry()\<close>\<close>
  | OmCbThrow          \<comment> \<open>repeating throw timer: \<^verbatim>\<open>tryToThrowNewspaper\<close>\<close>

text \<open>
  A newspaper is recorded by its constructor arguments (throwX, throwY, targetX), a
  squirrel by its position. \<open>squirrels\<close> lists the \<^verbatim>\<open>new Squirrel(...)\<close> calls made.
\<close>

record oldman = npc +
  backPainCount :: nat
  backPainThisPatrol :: nat
  phaseTimer :: "nat option"
  newspapers :: "(real \<times> real \<times> real) list"
  squirrels :: "(real \<times> real) list"
  om_clock :: "om_callback timer list"

definition OldMan_constructor :: "camera \<Rightarrow> real \<Rightarrow> real \<Rightarrow> oldman" where
  "OldMan_constructor c x0 y0 =
     \<lparr>sprite_x = OldMan_SCREEN_RIGHT + OldMan_SPAWN_OFFSET, sprite_y = y0, groundY = y0,
      velocityX = 0, flipX = True, visible = True, active = True, hasBody = True,
      hasScene = True, currentState = Waiting, patrolDirection = - 1,
      firstWarningShown = False, throwTimer = None,
      backPainCount = 0, backPainThisPatrol = 0, phaseTimer = None, newspapers = [],
      squirrels = [], om_clock = addTimer 2000 False OmCbStart []\<rparr>"

definition OldMan_stopWalkAnimation :: "oldman \<Rightarrow> oldman" where
  "OldMan_stopWalkAnimation s = s\<lparr>sprite_y := groundY s\<rparr>"

definition OldMan_startThrowingTimer :: "oldman \<Rightarrow> oldman" where
  "OldMan_startThrowingTimer s =
     s\<lparr>throwTimer := Some (length (om_clock s)),
       om_clock := addTimer OldMan_THROW_INTERVAL True OmCbThrow (om_clock s)\<rparr>"

definition OldMan_stopThrowingTimer :: "oldman \<Rightarrow> oldman" where
  "OldMan_stopThrowingTimer s =
     (case throwTimer s of
        None \<Rightarrow> s
      | Some h \<Rightarrow> s\<lparr>throwTimer := None, om_clock := removeTimer h (om_clock s)\<rparr>)"

definition OldMan_showEntryWarning :: "oldman \<Rightarrow> oldman" where
  "OldMan_showEntryWarning s = (if \<not> firstWarningShown s then s\<lparr>firstWarningShown := True\<rparr> else s)"

definition OldMan_startEntering :: "oldman \<Rightarrow> oldman" where
  "OldMan_startEntering s =
     (let s1 = s\<lparr>currentState := Entering, backPainThisPatrol := 0\<rparr>;
          s2 = OldMan_showEntryWarning s1
      in s2\<lparr>om_clock := addTimer 1000 False OmCbEnterTransit (om_clock s2)\<rparr>)"

text \<open>The body of the 1000 ms closure of \<^verbatim>\<open>startEntering\<close>.\<close>

definition OldMan_enterTransit :: "camera \<Rightarrow> oldman \<Rightarrow> oldman" where
  "OldMan_enterTransit c s =
     s\<lparr>sprite_x := (if patrolDirection s = - 1
                     then scrollX c + width c + OldMan_SPAWN_OFFSET
                     else scrollX c - OldMan_SPAWN_OFFSET),
       sprite_y := groundY s,
       visible := True,
       active := True,
       flipX := (patrolDirection s = - 1),
       velocityX := real_of_int (patrolDirection s) * OldMan_PATROL_SPEED,
       om_clock := addTimer 1500 False OmCbPatrol (om_clock s)\<rparr>"

definition OldMan_startPatrolling :: "nat \<Rightarrow> oldman \<Rightarrow> oldman" where
  "OldMan_startPatrolling r s =
     (let s1 = OldMan_startThrowingTimer (s\<lparr>currentState := Patrolling\<rparr>);
          patrolDuration = Between PATROL_TIME_MIN PATROL_TIME_MAX r
      in s1\<lparr>phaseTimer := Some (length (om_clock s1)),
             om_clock := addTimer patrolDuration False OmCbPhase (om_clock s1)\<rparr>)"

definition OldMan_startBackPain :: "nat \<Rightarrow> oldman \<Rightarrow> oldman" where
  "OldMan_startBackPain r s =
     (if backPainThisPatrol s \<ge> MAX_BACKPAIN_PER_PATROL then s
      else
        let s1 = s\<lparr>currentState := Backpain,
                   backPainCount := backPainCount s + 1,
                   backPainThisPatrol := backPainThisPatrol s + 1,
                   velocityX := 0\<rparr>;
            s2 = OldMan_stopThrowingTimer (OldMan_stopWalkAnimation s1);
            s3 = s2\<lparr>om_clock := addTimer SQUIRREL_DELAY False OmCbSquirrel (om_clock s2)\<rparr>;
            recoveryTime = Between BACKPAIN_TIME_MIN BACKPAIN_TIME_MAX r
        in s3\<lparr>om_clock := addTimer recoveryTime False OmCbRecover (om_clock s3)\<rparr>)"

definition OldMan_spawnSquirrel :: "oldman \<Rightarrow> oldman" where
  "OldMan_spawnSquirrel s = s\<lparr>squirrels := squirrels s @ [(850, 555)]\<rparr>"

definition OldMan_recoverFromBackPain :: "oldman \<Rightarrow> oldman" where
  "OldMan_recoverFromBackPain s =
     s\<lparr>velocityX := real_of_int (patrolDirection s) * OldMan_PATROL_SPEED,
       currentState := Patrolling\<rparr>"

definition OldMan_startExiting :: "oldman \<Rightarrow> oldman" where
  "OldMan_startExiting s =
     (let s1 = OldMan_stopThrowingTimer (s\<lparr>currentState := Exiting\<rparr>)
      in case phaseTimer s1 of
           None \<Rightarrow> s1
         | Some h \<Rightarrow> s1\<lparr>om_clock := removeTimer h (om_clock s1)\<rparr>)"

definition OldMan_startWaiting :: "nat \<Rightarrow> oldman \<Rightarrow> oldman" where
  "OldMan_startWaiting r s =
     (let s1 = OldMan_stopWalkAnimation (s\<lparr>currentState := Waiting, velocityX := 0\<rparr>);
          s2 = s1\<lparr>visible := False\<rparr>;
          waitTime = Between OldMan_REENTRY_TIME_MIN OldMan_REENTRY_TIME_MAX r
      in s2\<lparr>om_clock := addTimer waitTime False OmCbReentry (om_clock s2)\<rparr>)"

definition OldMan_prepareReentry :: "env \<Rightarrow> oldman \<Rightarrow> oldman" where
  "OldMan_prepareReentry e s =
     (let enterFromRight = (randomUnit e < 0.8);
          c = cam e
      in OldMan_startEntering
           (if enterFromRight
            then s\<lparr>sprite_x := scrollX c + width c + OldMan_SPAWN_OFFSET,
                   patrolDirection := - 1, flipX := True\<rparr>
            else s\<lparr>sprite_x := scrollX c - OldMan_SPAWN_OFFSET,
                   patrolDirection := 1, flipX := False\<rparr>))"

definition OldMan_exitedLeft :: "camera \<Rightarrow> oldman \<Rightarrow> bool" where
  "OldMan_exitedLeft c s = (patrolDirection s = - 1 \<and> sprite_x s < scrollX c - 100)"

definition OldMan_exitedRight :: "camera \<Rightarrow> oldman \<Rightarrow> bool" where
  "OldMan_exitedRight c s = (patrolDirection s = 1 \<and> sprite_x s > scrollX c + width c + 100)"

definition OldMan_update :: "env \<Rightarrow> real option \<Rightarrow> oldman \<Rightarrow> oldman" where
  "OldMan_update e player s =
     (case player of
        None \<Rightarrow> s
      | Some px \<Rightarrow>
          if \<not> active s then s
          else
            let s1 = (if currentState s = Patrolling \<or> currentState s = Entering
                      then s\<lparr>flipX := (patrolDirection s = - 1)\<rparr>
                      else if currentState s = Backpain
                      then s\<lparr>flipX := (px < sprite_x s)\<rparr>
                      else s)
            in if currentState s1 = Patrolling \<or> currentState s1 = Exiting
               then (if OldMan_exitedLeft (cam e) s1 \<or> OldMan_exitedRight (cam e) s1
                     then OldMan_startWaiting (randomInt e) s1
                     else s1)
               else s1)"

definition OldMan_throwNewspaper :: "real \<Rightarrow> oldman \<Rightarrow> oldman" where
  "OldMan_throwNewspaper px s =
     (let throwX = (if flipX s then sprite_x s - 20 else sprite_x s + 20);
          throwY = sprite_y s - 20
      in s\<lparr>newspapers := newspapers s @ [(throwX, throwY, px)]\<rparr>)"

definition OldMan_tryToThrowNewspaper :: "env \<Rightarrow> oldman \<Rightarrow> oldman" where
  "OldMan_tryToThrowNewspaper e s =
     (if currentState s \<noteq> Patrolling then s
      else case student e of
             None \<Rightarrow> s
           | Some px \<Rightarrow> OldMan_throwNewspaper px s)"

definition OldMan_cleanup :: "oldman \<Rightarrow> oldman" where
  "OldMan_cleanup s =
     (let s1 = OldMan_stopThrowingTimer s;
          s2 = (case phaseTimer s1 of
                  None \<Rightarrow> s1
                | Some h \<Rightarrow> s1\<lparr>om_clock := removeTimer h (om_clock s1)\<rparr>)
      in destroy (s2\<lparr>newspapers := []\<rparr>))"

fun OldMan_callback :: "om_callback \<Rightarrow> env \<Rightarrow> oldman \<Rightarrow> oldman" where
  "OldMan_callback OmCbStart e s = OldMan_startEntering s"
| "OldMan_callback OmCbEnterTransit e s = OldMan_enterTransit (cam e) s"
| "OldMan_callback OmCbPatrol e s = OldMan_startPatrolling (randomInt e) s"
| "OldMan_callback OmCbPhase e s = OldMan_startBackPain (randomInt e) s"
| "OldMan_callback OmCbSquirrel e s =
     (if currentState s = Backpain then OldMan_spawnSquirrel s else s)"
| "OldMan_callback OmCbRecover e s = OldMan_recoverFromBackPain s"
| "OldMan_callback OmCbReentry e s = OldMan_prepareReentry e s"
| "OldMan_callback OmCbThrow e s = OldMan_tryToThrowNewspaper e s"

text \<open>
  The clock fires timer \<open>h\<close>: nothing happens unless it is pending; a one-shot timer is
  spent, a repeating one stays; then the closure runs.
\<close>

definition OldMan_fire :: "nat \<Rightarrow> env \<Rightarrow> oldman \<Rightarrow> oldman" where
  "OldMan_fire h e s =
     (if isPending h (om_clock s)
      then OldMan_callback (callback (om_clock s ! h)) e
             (s\<lparr>om_clock := expireTimer h (om_clock s)\<rparr>)
      else s)"

section \<open>Bully\<close>

definition Bully_THROW_INTERVAL :: int where "Bully_THROW_INTERVAL = 2000"
definition Bully_PATROL_SPEED :: real where "Bully_PATROL_SPEED = 100"
definition MAX_THROWS :: nat where "MAX_THROWS = 4"
definition Bully_SCREEN_LEFT :: real where "Bully_SCREEN_LEFT = - 80"
definition Bully_SCREEN_RIGHT :: real where "Bully_SCREEN_RIGHT = 880"
definition Bully_SPAWN_OFFSET :: real where "Bully_SPAWN_OFFSET = 100"
definition Bully_REENTRY_TIME_MIN :: int where "Bully_REENTRY_TIME_MIN = 4000"
definition Bully_REENTRY_TIME_MAX :: int where "Bully_REENTRY_TIME_MAX = 7000"

text \<open>
  The 800 ms closure of \<^verbatim>\<open>startEntering\<close> captures the constant \<^verbatim>\<open>fromRight\<close> computed
  when it was scheduled, hence the argument of \<open>BCbEnterTransit\<close>.
\<close>

datatype bully_callback =
    BCbEntry               \<comment> \<open>constructor, 500 to 2000 ms: \<^verbatim>\<open>startEntering()\<close>\<close>
  | BCbEnterTransit bool   \<comment> \<open>\<^verbatim>\<open>startEntering\<close>, 800 ms: position and start charging\<close>
  | BCbCharge              \<comment> \<open>inside the former, 1000 ms: \<^verbatim>\<open>startCharging()\<close>\<close>
  | BCbReentry             \<comment> \<open>\<^verbatim>\<open>startWaiting\<close>, 4 to 7 s: \<^verbatim>\<open>prepareReentry()\<close>\<close>
  | BCbThrow               \<comment> \<open>repeating throw timer: \<^verbatim>\<open>tryToThrow\<close>\<close>

text \<open>
  \<open>wordBubbles\<close> is the array the class keeps for cleanup; \<open>bubbleLog\<close> lists every
  \<^verbatim>\<open>new WordBubble(scene, throwX, throwY)\<close> call made, so that spawns stay countable after
  the array is emptied.
\<close>

record bully = npc +
  throwCount :: nat
  pendingTimers :: "nat list"
  isDestroyed :: bool
  wordBubbles :: "(real \<times> real) list"
  bubbleLog :: "(real \<times> real) list"
  b_clock :: "bully_callback timer list"

definition Bully_constructor :: "env \<Rightarrow> real \<Rightarrow> real \<Rightarrow> bool \<Rightarrow> bully" where
  "Bully_constructor e x0 y0 startFromRight =
     (let c = cam e;
          startX = (if startFromRight
                    then scrollX c + width c + Bully_SPAWN_OFFSET
                    else scrollX c - Bully_SPAWN_OFFSET);
          entryDelay = Between 500 2000 (randomInt e)
      in \<lparr>sprite_x = startX, sprite_y = y0, groundY = y0,
          velocityX = 0, flipX = True, visible = True, active = True, hasBody = True,
          hasScene = True, currentState = Waiting,
          patrolDirection = (if startFromRight then - 1 else 1),
          firstWarningShown = False, throwTimer = None,
          throwCount = 0, pendingTimers = [0], isDestroyed = False, wordBubbles = [],
          bubbleLog = [], b_clock = addTimer entryDelay False BCbEntry []\<rparr>)"

text \<open>The safety check \<^verbatim>\<open>this.isDestroyed || !this.active || !this.body\<close>.\<close>

definition Bully_gone :: "bully \<Rightarrow> bool" where
  "Bully_gone s = (isDestroyed s \<or> \<not> active s \<or> \<not> hasBody s)"

definition Bully_stopWalkAnimation :: "bully \<Rightarrow> bully" where
  "Bully_stopWalkAnimation s = s\<lparr>sprite_y := groundY s\<rparr>"

definition Bully_throwWordBubble :: "env \<Rightarrow> real \<Rightarrow> bully \<Rightarrow> bully" where
  "Bully_throwWordBubble e px s =
     (if isDestroyed s \<or> \<not> active s \<or> \<not> hasScene s then s
      else
        let throwX = px + real_of_int (Between (- 50) 50 (randomInt e));
            throwY = - 50
        in s\<lparr>wordBubbles := wordBubbles s @ [(throwX, throwY)],
             bubbleLog := bubbleLog s @ [(throwX, throwY)]\<rparr>)"

definition Bully_tryToThrow :: "env \<Rightarrow> bully \<Rightarrow> bully" where
  "Bully_tryToThrow e s =
     (if isDestroyed s \<or> \<not> active s \<or> \<not> hasScene s then s
      else if currentState s \<noteq> Charging then s
      else if throwCount s \<ge> MAX_THROWS then s
      else case student e of
             None \<Rightarrow> s
           | Some px \<Rightarrow>
               (let s1 = Bully_throwWordBubble e px s
                in s1\<lparr>throwCount := throwCount s1 + 1\<rparr>))"

definition Bully_startThrowingTimer :: "env \<Rightarrow> bully \<Rightarrow> bully" where
  "Bully_startThrowingTimer e s =
     (let s1 = Bully_tryToThrow e s
      in s1\<lparr>throwTimer := Some (length (b_clock s1)),
             b_clock := addTimer Bully_THROW_INTERVAL True BCbThrow (b_clock s1)\<rparr>)"

definition Bully_stopThrowingTimer :: "bully \<Rightarrow> bully" where
  "Bully_stopThrowingTimer s =
     (case throwTimer s of
        None \<Rightarrow> s
      | Some h \<Rightarrow> s\<lparr>throwTimer := None, b_clock := removeTimer h (b_clock s)\<rparr>)"

definition Bully_startEntering :: "bully \<Rightarrow> bully" where
  "Bully_startEntering s =
     (if Bully_gone s then s
      else
        let fromRight = (patrolDirection s = - 1)
        in s\<lparr>currentState := Entering,
             throwCount := 0,
             pendingTimers := pendingTimers s @ [length (b_clock s)],
             b_clock := addTimer 800 False (BCbEnterTransit fromRight) (b_clock s)\<rparr>)"

text \<open>The body of the 800 ms closure of \<^verbatim>\<open>startEntering\<close>.\<close>

definition Bully_enterTransit :: "bool \<Rightarrow> camera \<Rightarrow> bully \<Rightarrow> bully" where
  "Bully_enterTransit fromRight c s =
     (if Bully_gone s then s
      else
        s\<lparr>sprite_x := (if fromRight
                        then scrollX c + width c + Bully_SPAWN_OFFSET
                        else scrollX c - Bully_SPAWN_OFFSET),
          sprite_y := groundY s,
          visible := True,
          active := True,
          flipX := (patrolDirection s = - 1),
          velocityX := real_of_int (patrolDirection s) * Bully_PATROL_SPEED,
          pendingTimers := pendingTimers s @ [length (b_clock s)],
          b_clock := addTimer 1000 False BCbCharge (b_clock s)\<rparr>)"

definition Bully_startCharging :: "env \<Rightarrow> bully \<Rightarrow> bully" where
  "Bully_startCharging e s = Bully_startThrowingTimer e (s\<lparr>currentState := Charging\<rparr>)"

definition Bully_startExiting :: "bully \<Rightarrow> bully" where
  "Bully_startExiting s = Bully_stopThrowingTimer (s\<lparr>currentState := Exiting\<rparr>)"

definition Bully_startWaiting :: "nat \<Rightarrow> bully \<Rightarrow> bully" where
  "Bully_startWaiting r s =
     (if Bully_gone s then s
      else
        let s1 = Bully_stopWalkAnimation (s\<lparr>currentState := Waiting, velocityX := 0\<rparr>);
            s2 = s1\<lparr>visible := False\<rparr>;
            waitTime = Between Bully_REENTRY_TIME_MIN Bully_REENTRY_TIME_MAX r
        in s2\<lparr>pendingTimers := pendingTimers s2 @ [length (b_clock s2)],
               b_clock := addTimer waitTime False BCbReentry (b_clock s2)\<rparr>)"

definition Bully_prepareReentry :: "env \<Rightarrow> bully \<Rightarrow> bully" where
  "Bully_prepareReentry e s =
     (if Bully_gone s then s
      else
        let enterFromRight = (randomUnit e < 0.5);
            c = cam e;
            s1 = (if enterFromRight
                  then s\<lparr>sprite_x := scrollX c + width c + Bully_SPAWN_OFFSET,
                         patrolDirection := - 1\<rparr>
                  else s\<lparr>sprite_x := scrollX c - Bully_SPAWN_OFFSET,
                         patrolDirection := 1\<rparr>)
        in Bully_startEntering (s1\<lparr>flipX := (patrolDirection s1 = - 1)\<rparr>))"

definition Bully_exitedLeft :: "camera \<Rightarrow> bully \<Rightarrow> bool" where
  "Bully_exitedLeft c s = (patrolDirection s = - 1 \<and> sprite_x s < scrollX c - 100)"

definition Bully_exitedRight :: "camera \<Rightarrow> bully \<Rightarrow> bool" where
  "Bully_exitedRight c s = (patrolDirection s = 1 \<and> sprite_x s > scrollX c + width c + 100)"

definition Bully_update :: "env \<Rightarrow> real option \<Rightarrow> bully \<Rightarrow> bully" where
  "Bully_update e player s =
     (case player of
        None \<Rightarrow> s
      | Some px \<Rightarrow>
          if \<not> active s then s
          else
            let s1 = (if currentState s = Charging \<or> currentState s = Entering
                      then s\<lparr>flipX := (patrolDirection s = - 1)\<rparr>
                      else s)
            in if currentState s1 = Charging \<or> currentState s1 = Exiting
               then (if Bully_exitedLeft (cam e) s1 \<or> Bully_exitedRight (cam e) s1
                     then Bully_startWaiting (randomInt e) s1
                     else s1)
               else s1)"

definition Bully_cleanup :: "bully \<Rightarrow> bully" where
  "Bully_cleanup s =
     (let s1 = s\<lparr>isDestroyed := True\<rparr>;
          s2 = s1\<lparr>b_clock := fold removeTimer (pendingTimers s1) (b_clock s1),
                  pendingTimers := []\<rparr>;
          s3 = Bully_stopThrowingTimer s2
      in destroy (s3\<lparr>wordBubbles := []\<rparr>))"

fun Bully_callback :: "bully_callback \<Rightarrow> env \<Rightarrow> bully \<Rightarrow> bully" where
  "Bully_callback BCbEntry e s = (if Bully_gone s then s else Bully_startEntering s)"
| "Bully_callback (BCbEnterTransit fromRight) e s = Bully_enterTransit fromRight (cam e) s"
| "Bully_callback BCbCharge e s = (if Bully_gone s then s else Bully_startCharging e s)"
| "Bully_callback BCbReentry e s = (if Bully_gone s then s else Bully_prepareReentry e s)"
| "Bully_callback BCbThrow e s = Bully_tryToThrow e s"

definition Bully_fire :: "nat \<Rightarrow> env \<Rightarrow> bully \<Rightarrow> bully" where
  "Bully_fire h e s =
     (if isPending h (b_clock s)
      then Bully_callback (callback (b_clock s ! h)) e
             (s\<lparr>b_clock := expireTimer h (b_clock s)\<rparr>)
      else s)"

section \<open>Runs\<close>

text \<open>
  What can happen to a sprite: the clock fires one of its timers, the zone calls
  \<^verbatim>\<open>update(player)\<close> (the first argument carries the camera and the random draw, the
  second the player's x), the physics engine moves the body for \<open>dt\<close> seconds, the zone
  calls \<^verbatim>\<open>cleanup()\<close>.
\<close>

datatype event = Fire nat env | Update env "real option" | Physics real | Cleanup

fun OldMan_step :: "event \<Rightarrow> oldman \<Rightarrow> oldman" where
  "OldMan_step (Fire h e) s = OldMan_fire h e s"
| "OldMan_step (Update e player) s = OldMan_update e player s"
| "OldMan_step (Physics dt) s = s\<lparr>sprite_x := sprite_x s + velocityX s * dt\<rparr>"
| "OldMan_step Cleanup s = OldMan_cleanup s"

fun Bully_step :: "event \<Rightarrow> bully \<Rightarrow> bully" where
  "Bully_step (Fire h e) s = Bully_fire h e s"
| "Bully_step (Update e player) s = Bully_update e player s"
| "Bully_step (Physics dt) s = s\<lparr>sprite_x := sprite_x s + velocityX s * dt\<rparr>"
| "Bully_step Cleanup s = Bully_cleanup s"

fun OldMan_run :: "event list \<Rightarrow> oldman \<Rightarrow> oldman" where
  "OldMan_run [] s = s"
| "OldMan_run (ev # evs) s = OldMan_run evs (OldMan_step ev s)"

fun Bully_run :: "event list \<Rightarrow> bully \<Rightarrow> bully" where
  "Bully_run [] s = s"
| "Bully_run (ev # evs) s = Bully_run evs (Bully_step ev s)"

text \<open>
  A step starts a new traversal when it runs \<^verbatim>\<open>startEntering\<close>: the clock fires the
  constructor's start timer or a re-entry timer. A run stays within one traversal when
  none of its steps does.
\<close>

fun OldMan_enters :: "event \<Rightarrow> oldman \<Rightarrow> bool" where
  "OldMan_enters (Fire h e) s =
     (isPending h (om_clock s) \<and>
      (callback (om_clock s ! h) = OmCbStart \<or> callback (om_clock s ! h) = OmCbReentry))"
| "OldMan_enters ev s = False"

fun Bully_enters :: "event \<Rightarrow> bully \<Rightarrow> bool" where
  "Bully_enters (Fire h e) s =
     (isPending h (b_clock s) \<and>
      (callback (b_clock s ! h) = BCbEntry \<or> callback (b_clock s ! h) = BCbReentry))"
| "Bully_enters ev s = False"

fun OldMan_oneTraversal :: "event list \<Rightarrow> oldman \<Rightarrow> bool" where
  "OldMan_oneTraversal [] s = True"
| "OldMan_oneTraversal (ev # evs) s =
     (if OldMan_enters ev s then False else OldMan_oneTraversal evs (OldMan_step ev s))"

fun Bully_oneTraversal :: "event list \<Rightarrow> bully \<Rightarrow> bool" where
  "Bully_oneTraversal [] s = True"
| "Bully_oneTraversal (ev # evs) s =
     (if Bully_enters ev s then False else Bully_oneTraversal evs (Bully_step ev s))"

section \<open>The exit tests in double precision\<close>

text \<open>
  A JavaScript number is an IEEE 754 binary64 value: a finite double (carried here by
  the real it denotes; the sign of zero is not kept, neither \<open>+\<close> nor \<open><\<close> below
  can tell the two zeros apart), an infinity or NaN. \<open>to_double\<close> rounds a real to the
  nearest double, ties to the even significand: the unit in the last place of \<open>r\<close> is
  \<open>2 ^ quantum r\<close>, with 53 significant bits down to the subnormal spacing \<open>2 ^ -1074\<close>,
  and a result of magnitude \<open>2 ^ 1024\<close> or more overflows to an infinity.
\<close>

function bitsize :: "int \<Rightarrow> int" where
  "bitsize n = (if n \<le> 0 then 0 else 1 + bitsize (n div 2))"
  by pat_completeness auto
termination
  by (relation "measure nat") auto

definition pow2 :: "int \<Rightarrow> real" where
  "pow2 k = (if 0 \<le> k then 2 ^ nat k else 1 / 2 ^ nat (- k))"

definition ilog2 :: "real \<Rightarrow> int" where
  "ilog2 r = (if 1 \<le> \<bar>r\<bar> then bitsize \<lfloor>\<bar>r\<bar>\<rfloor> - 1
              else - bitsize (\<lceil>1 / \<bar>r\<bar>\<rceil> - 1))"

definition quantum :: "real \<Rightarrow> int" where
  "quantum r = max (ilog2 r - 52) (- 1074)"

definition round_even :: "real \<Rightarrow> int" where
  "round_even q =
     (let n = \<lfloor>q\<rfloor>; f = q - of_int n
      in if f < 1 / 2 then n else if 1 / 2 < f then n + 1 else if even n then n else n + 1)"

datatype js_number = Dbl real | PlusInfinity | MinusInfinity | NaN

definition to_double :: "real \<Rightarrow> js_number" where
  "to_double r =
     (if r = 0 then Dbl 0
      else
        let k = quantum r;
            v = of_int (round_even (r / pow2 k)) * pow2 k
        in if 2 ^ 1024 \<le> \<bar>v\<bar> then (if 0 < r then PlusInfinity else MinusInfinity) else Dbl v)"

definition is_double :: "real \<Rightarrow> bool" where
  "is_double r = (to_double r = Dbl r)"

fun js_neg :: "js_number \<Rightarrow> js_number" where
  "js_neg (Dbl a) = Dbl (- a)"
| "js_neg PlusInfinity = MinusInfinity"
| "js_neg MinusInfinity = PlusInfinity"
| "js_neg NaN = NaN"

fun js_add :: "js_number \<Rightarrow> js_number \<Rightarrow> js_number" where
  "js_add NaN b = NaN"
| "js_add a NaN = NaN"
| "js_add PlusInfinity MinusInfinity = NaN"
| "js_add MinusInfinity PlusInfinity = NaN"
| "js_add PlusInfinity b = PlusInfinity"
| "js_add a PlusInfinity = PlusInfinity"
| "js_add MinusInfinity b = MinusInfinity"
| "js_add a MinusInfinity = MinusInfinity"
| "js_add (Dbl a) (Dbl b) = to_double (a + b)"

definition js_sub :: "js_number \<Rightarrow> js_number \<Rightarrow> js_number" where
  "js_sub a b = js_add a (js_neg b)"

fun js_less :: "js_number \<Rightarrow> js_number \<Rightarrow> bool" where
  "js_less NaN b = False"
| "js_less a NaN = False"
| "js_less (Dbl a) (Dbl b) = (a < b)"
| "js_less MinusInfinity MinusInfinity = False"
| "js_less MinusInfinity b = True"
| "js_less a MinusInfinity = False"
| "js_less PlusInfinity b = False"
| "js_less a PlusInfinity = True"

text \<open>
  The exit tests of \<^verbatim>\<open>update\<close> as both classes write them:
  \<^verbatim>\<open>cameraLeft = camera.scrollX - 100\<close>, \<^verbatim>\<open>cameraRight = camera.scrollX + camera.width + 100\<close>,
  \<^verbatim>\<open>exitedLeft = patrolDirection === -1 && x < cameraLeft\<close> and
  \<^verbatim>\<open>exitedRight = patrolDirection === 1 && x > cameraRight\<close>, each operation rounded.
\<close>

record camera64 =
  scrollX64 :: js_number
  width64 :: js_number

definition OldMan_exitedLeft64 :: "camera64 \<Rightarrow> int \<Rightarrow> js_number \<Rightarrow> bool" where
  "OldMan_exitedLeft64 c pd x =
     (let cameraLeft = js_sub (scrollX64 c) (Dbl 100)
      in pd = - 1 \<and> js_less x cameraLeft)"

definition OldMan_exitedRight64 :: "camera64 \<Rightarrow> int \<Rightarrow> js_number \<Rightarrow> bool" where
  "OldMan_exitedRight64 c pd x =
     (let cameraRight = js_add (js_add (scrollX64 c) (width64 c)) (Dbl 100)
      in pd = 1 \<and> js_less cameraRight x)"


definition Bully_exitedLeft64 :: "camera64 \<Rightarrow> int \<Rightarrow> js_number \<Rightarrow> bool" where
  "Bully_exitedLeft64 c pd x =
     (let cameraLeft = js_sub (scrollX64 c) (Dbl 100)
      in pd = - 1 \<and> js_less x cameraLeft)"

definition Bully_exitedRight64 :: "camera64 \<Rightarrow> int \<Rightarrow> js_number \<Rightarrow> bool" where
  "Bully_exitedRight64 c pd x =
     (let cameraRight = js_add (js_add (scrollX64 c) (width64 c)) (Dbl 100)
      in pd = 1 \<and> js_less cameraRight x)"


section \<open>Disposed sprites\<close>

text \<open>
  The OldMan's closures and his \<^verbatim>\<open>cleanup\<close> on any sprite, disposed ones included. After
  \<^verbatim>\<open>destroy()\<close> the sprite has no scene and no body; reading a property through
  \<^verbatim>\<open>this.scene\<close> or \<^verbatim>\<open>this.body\<close> then throws a TypeError, which ends the call and
  leaves what was assigned before in place. Each definition follows its method
  statement by statement up to the first such access; on a live sprite it returns what
  the definition of the OldMan section computes.
\<close>

datatype js_error = TypeError

datatype 'a outcome = Returned 'a | Threw js_error 'a

fun after :: "'a outcome \<Rightarrow> 'a" where
  "after (Returned s) = s"
| "after (Threw err s) = s"

fun thrown :: "'a outcome \<Rightarrow> js_error option" where
  "thrown (Returned s) = None"
| "thrown (Threw err s) = Some err"

definition OldMan_startEntering_call :: "oldman \<Rightarrow> oldman outcome" where
  "OldMan_startEntering_call s =
     (if \<not> hasScene s
      then Threw TypeError (s\<lparr>currentState := Entering, backPainThisPatrol := 0\<rparr>)
      else Returned (OldMan_startEntering s))"

definition OldMan_enterTransit_call :: "camera \<Rightarrow> oldman \<Rightarrow> oldman outcome" where
  "OldMan_enterTransit_call c s =
     (if \<not> hasScene s then Threw TypeError s
      else if \<not> hasBody s
      then Threw TypeError
             (s\<lparr>sprite_x := (if patrolDirection s = - 1
                              then scrollX c + width c + OldMan_SPAWN_OFFSET
                              else scrollX c - OldMan_SPAWN_OFFSET),
                sprite_y := groundY s,
                visible := True,
                active := True,
                flipX := (patrolDirection s = - 1)\<rparr>)
      else Returned (OldMan_enterTransit c s))"

definition OldMan_startPatrolling_call :: "nat \<Rightarrow> oldman \<Rightarrow> oldman outcome" where
  "OldMan_startPatrolling_call r s =
     (if \<not> hasScene s then Threw TypeError (s\<lparr>currentState := Patrolling\<rparr>)
      else Returned (OldMan_startPatrolling r s))"

definition OldMan_startBackPain_call :: "nat \<Rightarrow> oldman \<Rightarrow> oldman outcome" where
  "OldMan_startBackPain_call r s =
     (if backPainThisPatrol s \<ge> MAX_BACKPAIN_PER_PATROL then Returned s
      else
        let s1 = s\<lparr>currentState := Backpain,
                   backPainCount := backPainCount s + 1,
                   backPainThisPatrol := backPainThisPatrol s + 1\<rparr>
        in if \<not> hasBody s then Threw TypeError s1
           else
             let s2 = OldMan_stopThrowingTimer (OldMan_stopWalkAnimation (s1\<lparr>velocityX := 0\<rparr>))
             in if \<not> hasScene s then Threw TypeError s2
                else Returned (OldMan_startBackPain r s))"

definition OldMan_recoverFromBackPain_call :: "oldman \<Rightarrow> oldman outcome" where
  "OldMan_recoverFromBackPain_call s =
     (if \<not> hasScene s then Threw TypeError s
      else if \<not> hasBody s then Threw TypeError s
      else Returned (OldMan_recoverFromBackPain s))"

definition OldMan_prepareReentry_call :: "env \<Rightarrow> oldman \<Rightarrow> oldman outcome" where
  "OldMan_prepareReentry_call e s =
     (if \<not> hasScene s then Threw TypeError s
      else Returned (OldMan_prepareReentry e s))"

definition OldMan_tryToThrowNewspaper_call :: "env \<Rightarrow> oldman \<Rightarrow> oldman outcome" where
  "OldMan_tryToThrowNewspaper_call e s =
     (if currentState s \<noteq> Patrolling then Returned s
      else if \<not> hasScene s then Threw TypeError s
      else Returned (OldMan_tryToThrowNewspaper e s))"

definition OldMan_cleanup_call :: "oldman \<Rightarrow> oldman outcome" where
  "OldMan_cleanup_call s =
     (let s1 = OldMan_stopThrowingTimer s;
          s2 = (case phaseTimer s1 of
                  None \<Rightarrow> s1
                | Some h \<Rightarrow> s1\<lparr>om_clock := removeTimer h (om_clock s1)\<rparr>)
      in if \<not> hasScene s then Threw TypeError s2
         else Returned (destroy (s2\<lparr>newspapers := []\<rparr>)))"

fun OldMan_closure :: "om_callback \<Rightarrow> env \<Rightarrow> oldman \<Rightarrow> oldman outcome" where
  "OldMan_closure OmCbStart e s = OldMan_startEntering_call s"
| "OldMan_closure OmCbEnterTransit e s = OldMan_enterTransit_call (cam e) s"
| "OldMan_closure OmCbPatrol e s = OldMan_startPatrolling_call (randomInt e) s"
| "OldMan_closure OmCbPhase e s = OldMan_startBackPain_call (randomInt e) s"
| "OldMan_closure OmCbSquirrel e s =
     (if currentState s = Backpain
      then (if \<not> hasScene s then Threw TypeError s else Returned (OldMan_spawnSquirrel s))
      else Returned s)"
| "OldMan_closure OmCbRecover e s = OldMan_recoverFromBackPain_call s"
| "OldMan_closure OmCbReentry e s = OldMan_prepareReentry_call e s"
| "OldMan_closure OmCbThrow e s = OldMan_tryToThrowNewspaper_call e s"

definition OldMan_clock_fires :: "nat \<Rightarrow> env \<Rightarrow> oldman \<Rightarrow> oldman outcome" where
  "OldMan_clock_fires h e s =
     (if isPending h (om_clock s)
      then OldMan_closure (callback (om_clock s ! h)) e
             (s\<lparr>om_clock := expireTimer h (om_clock s)\<rparr>)
      else Returned s)"

section \<open>Measures and sample data\<close>

text \<open>
  Stalls taken so far plus stalls still allowed this patrol; word bubbles spawned so far
  plus throws still allowed this pass. Both stay constant while no new traversal starts.
\<close>

definition om_pot :: "oldman \<Rightarrow> nat" where
  "om_pot s = backPainCount s + (MAX_BACKPAIN_PER_PATROL - backPainThisPatrol s)"

definition b_pot :: "bully \<Rightarrow> nat" where
  "b_pot s = length (bubbleLog s) + (MAX_THROWS - throwCount s)"

text \<open>
  Sample surroundings: a camera at the origin and one scrolled to 5000, both 800 wide,
  with the player in mid-viewport and the smallest random draws. The sample sprites are
  built by the constructors and driven by their own timers to the attacking state.
\<close>

definition demo_env :: env where
  "demo_env = \<lparr>cam = \<lparr>scrollX = 0, width = 800\<rparr>, student = Some 400, randomInt = 0, randomUnit = 0\<rparr>"

definition far_env :: env where
  "far_env = \<lparr>cam = \<lparr>scrollX = 5000, width = 800\<rparr>, student = Some 5400, randomInt = 0, randomUnit = 0\<rparr>"

definition demo_oldman :: oldman where
  "demo_oldman = OldMan_constructor (cam demo_env) 0 505"

definition demo_bully :: bully where
  "demo_bully = Bully_constructor demo_env 0 505 True"

definition demo_patrolling :: oldman where
  "demo_patrolling = OldMan_run [Fire 0 demo_env, Fire 1 demo_env, Fire 2 demo_env] demo_oldman"

definition demo_charging :: bully where
  "demo_charging = Bully_run [Fire 0 demo_env, Fire 1 demo_env, Fire 2 demo_env] demo_bully"

text \<open>
  Sample runs. \<open>demo_stall_run\<close> takes the old man, after his start timer, through one
  patrol with a throw, the back pain, its squirrel and the recovery; \<open>demo_charge_run\<close>
  takes the bully through one charge in which the throw timer fires five times;
  \<open>demo_tworounds\<close> is a bully's first pass, its exit on the left, the re-entry, the
  second charge and the zone's cleanup.
\<close>

definition demo_stall_run :: "event list" where
  "demo_stall_run =
     [Fire 1 demo_env, Fire 2 demo_env, Fire 3 demo_env, Fire 4 demo_env, Fire 5 demo_env,
      Fire 6 demo_env, Update demo_env (Some 400), Fire 4 demo_env]"

definition demo_charge_run :: "event list" where
  "demo_charge_run =
     [Fire 1 demo_env, Fire 2 demo_env, Fire 3 demo_env, Fire 3 demo_env, Fire 3 demo_env,
      Fire 3 demo_env, Fire 3 demo_env, Update demo_env (Some 400)]"

definition demo_entering :: oldman where
  "demo_entering = OldMan_fire 0 demo_env demo_oldman"

definition demo_tworounds :: "event list" where
  "demo_tworounds =
     [Fire 0 demo_env, Fire 1 demo_env, Fire 2 demo_env, Physics 11, Update demo_env (Some 400),
      Fire 4 demo_env, Fire 5 demo_env, Fire 6 demo_env, Cleanup]"

text \<open>
  A draw of 0.9 makes the old man re-enter from the left; \<open>demo_rightward\<close> is the old
  man of \<open>demo_patrolling\<close> after walking out on the left, waiting, re-entering from the
  left and starting his second patrol. \<open>demo_rightward_bully\<close> is a bully constructed to
  start from the left, in its first charge.
\<close>

definition left_env :: env where
  "left_env = \<lparr>cam = \<lparr>scrollX = 0, width = 800\<rparr>, student = Some 400, randomInt = 0, randomUnit = 0.9\<rparr>"

definition demo_rightward :: oldman where
  "demo_rightward =
     OldMan_run [Physics 17, Update demo_env (Some 400), Fire 5 left_env, Fire 6 left_env,
                 Fire 7 left_env] demo_patrolling"

definition demo_rightward_bully :: bully where
  "demo_rightward_bully =
     Bully_run [Fire 0 demo_env, Fire 1 demo_env, Fire 2 demo_env] (Bully_constructor demo_env 0 505 False)"

text \<open>
  \<open>demo_last_throw\<close> is the sample bully in its first charge with three word bubbles
  thrown: its next throw uses up the budget.
\<close>

definition demo_last_throw :: bully where
  "demo_last_throw =
     Bully_run [Fire 0 demo_env, Fire 1 demo_env, Fire 2 demo_env, Fire 3 demo_env, Fire 3 demo_env]
       demo_bully"

section \<open>Unfolding sets and basic facts\<close>

declare bitsize.simps [simp del]


lemmas om_defs = OldMan_startEntering_def OldMan_showEntryWarning_def OldMan_enterTransit_def
  OldMan_startPatrolling_def OldMan_startThrowingTimer_def OldMan_stopThrowingTimer_def
  OldMan_startBackPain_def OldMan_stopWalkAnimation_def OldMan_spawnSquirrel_def
  OldMan_recoverFromBackPain_def OldMan_startWaiting_def OldMan_prepareReentry_def
  OldMan_tryToThrowNewspaper_def OldMan_throwNewspaper_def

lemmas b_defs = Bully_startEntering_def Bully_enterTransit_def Bully_startCharging_def
  Bully_startThrowingTimer_def Bully_stopThrowingTimer_def Bully_tryToThrow_def
  Bully_throwWordBubble_def Bully_startWaiting_def Bully_stopWalkAnimation_def
  Bully_prepareReentry_def

lemmas const_defs =
  OldMan_THROW_INTERVAL_def OldMan_PATROL_SPEED_def OldMan_SPAWN_OFFSET_def OldMan_SCREEN_RIGHT_def
  PATROL_TIME_MIN_def PATROL_TIME_MAX_def BACKPAIN_TIME_MIN_def BACKPAIN_TIME_MAX_def SQUIRREL_DELAY_def
  OldMan_REENTRY_TIME_MIN_def OldMan_REENTRY_TIME_MAX_def MAX_BACKPAIN_PER_PATROL_def
  Bully_THROW_INTERVAL_def Bully_PATROL_SPEED_def MAX_THROWS_def Bully_SPAWN_OFFSET_def
  Bully_REENTRY_TIME_MIN_def Bully_REENTRY_TIME_MAX_def

lemmas eval_defs = demo_env_def far_env_def demo_oldman_def demo_bully_def demo_patrolling_def demo_charging_def
  demo_entering_def left_env_def demo_rightward_def demo_rightward_bully_def demo_last_throw_def
  OldMan_constructor_def Bully_constructor_def
  om_defs b_defs OldMan_fire_def Bully_fire_def OldMan_update_def Bully_update_def OldMan_cleanup_def Bully_cleanup_def
  addTimer_def removeTimer_def expireTimer_def isPending_def Between_def destroy_def Let_def
  OldMan_exitedLeft_def OldMan_exitedRight_def Bully_exitedLeft_def Bully_exitedRight_def Bully_gone_def
  spec_spawnX_def spec_hasExitedLeft_def spec_hasExitedRight_def inViewport_def
  const_defs

lemma om_update_state:
  "currentState (OldMan_update e p s) =
     (if p \<noteq> None \<and> active s \<and> (currentState s = Patrolling \<or> currentState s = Exiting)
         \<and> (OldMan_exitedLeft (cam e) s \<or> OldMan_exitedRight (cam e) s)
      then Waiting else currentState s)"
  by (cases p) (auto simp: OldMan_update_def OldMan_startWaiting_def OldMan_stopWalkAnimation_def Let_def
      OldMan_exitedLeft_def OldMan_exitedRight_def)

lemma b_update_state:
  "currentState (Bully_update e p s) =
     (if p \<noteq> None \<and> active s \<and> (currentState s = Charging \<or> currentState s = Exiting)
         \<and> (Bully_exitedLeft (cam e) s \<or> Bully_exitedRight (cam e) s) \<and> \<not> Bully_gone s
      then Waiting else currentState s)"
  by (cases p) (auto simp: Bully_update_def Bully_startWaiting_def Bully_stopWalkAnimation_def Let_def
      Bully_exitedLeft_def Bully_exitedRight_def Bully_gone_def)

lemma exit_as_spec:
  "OldMan_exitedLeft c s = (patrolDirection s = - 1 \<and> spec_hasExitedLeft c (sprite_x s) 100)"
  "OldMan_exitedRight c s = (patrolDirection s = 1 \<and> spec_hasExitedRight c (sprite_x s) 100)"
  "Bully_exitedLeft c b = (patrolDirection b = - 1 \<and> spec_hasExitedLeft c (sprite_x b) 100)"
  "Bully_exitedRight c b = (patrolDirection b = 1 \<and> spec_hasExitedRight c (sprite_x b) 100)"
  by (auto simp: OldMan_exitedLeft_def OldMan_exitedRight_def Bully_exitedLeft_def Bully_exitedRight_def
      spec_hasExitedLeft_def spec_hasExitedRight_def)


section \<open>Exit detection\<close>

text \<open>
  Rounding is the identity on integers below \<open>2 ^ 53\<close>; where the threshold sums are
  exact the double-precision tests are the tests over the reals.
\<close>

lemma bitsize_le: "n < 2 ^ m \<Longrightarrow> bitsize n \<le> int m"
proof (induction m arbitrary: n)
  case 0
  then have "n \<le> 0" by simp
  then show ?case by (simp add: bitsize.simps[of n])
next
  case (Suc m)
  show ?case
  proof (cases "n \<le> 0")
    case True
    then show ?thesis by (simp add: bitsize.simps[of n])
  next
    case False
    from Suc.prems have "n div 2 < 2 ^ m" by simp
    from Suc.IH[OF this] False show ?thesis by (simp add: bitsize.simps[of n])
  qed
qed

lemma round_even_int: "round_even (of_int m) = m"
  by (simp add: round_even_def)

lemma quantum_int:
  assumes "\<bar>n\<bar> < 2 ^ 53" "n \<noteq> 0"
  shows "quantum (of_int n) \<le> 0" "- 1074 \<le> quantum (of_int n)"
proof -
  have one: "1 \<le> \<bar>real_of_int n\<bar>" using assms(2) by linarith
  have fl: "\<lfloor>\<bar>real_of_int n\<bar>\<rfloor> = \<bar>n\<bar>" by (metis floor_of_int of_int_abs)
  have "bitsize \<bar>n\<bar> \<le> int 53" using assms(1) by (intro bitsize_le) simp
  then show "quantum (of_int n) \<le> 0"
    using one fl by (simp add: quantum_def ilog2_def)
  show "- 1074 \<le> quantum (of_int n)" by (simp add: quantum_def)
qed

lemma int_is_double:
  assumes "\<bar>n\<bar> < 2 ^ 53"
  shows "is_double (of_int n)"
proof (cases "n = 0")
  case True
  then show ?thesis by (simp add: is_double_def to_double_def)
next
  case False
  define k where "k = quantum (real_of_int n)"
  define j where "j = nat (- k)"
  have k: "k \<le> 0" using quantum_int[OF assms False] by (simp add: k_def)
  have p: "pow2 k = 1 / 2 ^ j"
  proof (cases "k = 0")
    case True then show ?thesis by (simp add: pow2_def j_def)
  next
    case False with k show ?thesis by (simp add: pow2_def j_def)
  qed
  have q: "real_of_int n / pow2 k = of_int (n * 2 ^ j)" by (simp add: p)
  have r: "round_even (real_of_int n / pow2 k) = n * 2 ^ j"
    unfolding q by (rule round_even_int)
  have "of_int (round_even (real_of_int n / pow2 k)) * pow2 k = of_int (n * 2 ^ j) * pow2 k"
    by (simp only: r)
  also have "\<dots> = real_of_int n" by (simp add: p)
  finally have v: "of_int (round_even (real_of_int n / pow2 k)) * pow2 k = real_of_int n" .
  have "\<bar>real_of_int n\<bar> < 2 ^ 53"
    using assms by (metis of_int_abs of_int_less_numeral_power_cancel_iff)
  also have "(2::real) ^ 53 \<le> 2 ^ 1024" by (intro power_increasing) simp_all
  finally have small: "\<not> 2 ^ 1024 \<le> \<bar>real_of_int n\<bar>" by simp
  from False have nz: "real_of_int n \<noteq> 0" by simp
  show ?thesis
    unfolding is_double_def to_double_def Let_def
    using nz small v by (simp add: k_def)
qed


lemma to_doubleI:
  assumes "r \<noteq> 0" "quantum r = k" "round_even (r / pow2 k) = n" "of_int n * pow2 k = v"
    "\<bar>v\<bar> < 2 ^ 1024"
  shows "to_double r = Dbl v"
  using assms by (simp add: to_double_def Let_def)

lemma is_doubleI:
  assumes "r \<noteq> 0" "quantum r = k" "round_even (r / pow2 k) = n" "of_int n * pow2 k = r"
    "\<bar>r\<bar> < 2 ^ 1024"
  shows "is_double r"
  unfolding is_double_def using assms by (rule to_doubleI)

lemmas fp_steps = quantum_def ilog2_def bitsize.simps round_even_def pow2_def Let_def

lemma int_sum_is_double:
  assumes "\<bar>a\<bar> \<le> 2 ^ 50" "\<bar>b\<bar> \<le> 2 ^ 50"
  shows "is_double (real_of_int a + real_of_int b)" "is_double (real_of_int a - real_of_int b)"
proof -
  have "\<bar>a + b\<bar> < 2 ^ 53" "\<bar>a - b\<bar> < 2 ^ 53" using assms by simp_all
  from int_is_double[OF this(1)] int_is_double[OF this(2)]
  show "is_double (real_of_int a + real_of_int b)" "is_double (real_of_int a - real_of_int b)"
    by simp_all
qed

lemma exitedLeft64_exact:
  assumes "is_double (s - 100)"
  shows "OldMan_exitedLeft64 \<lparr>scrollX64 = Dbl s, width64 = Dbl w\<rparr> pd (Dbl x) = (pd = - 1 \<and> x - s < - 100)"
    and "Bully_exitedLeft64 \<lparr>scrollX64 = Dbl s, width64 = Dbl w\<rparr> pd (Dbl x) = (pd = - 1 \<and> x - s < - 100)"
  using assms by (auto simp: OldMan_exitedLeft64_def Bully_exitedLeft64_def js_sub_def is_double_def)

lemma exitedRight64_exact:
  assumes "is_double (s + w)" "is_double (s + w + 100)"
  shows "OldMan_exitedRight64 \<lparr>scrollX64 = Dbl s, width64 = Dbl w\<rparr> pd (Dbl x) = (pd = 1 \<and> w + 100 < x - s)"
    and "Bully_exitedRight64 \<lparr>scrollX64 = Dbl s, width64 = Dbl w\<rparr> pd (Dbl x) = (pd = 1 \<and> w + 100 < x - s)"
  using assms by (auto simp: OldMan_exitedRight64_def Bully_exitedRight64_def is_double_def)

lemma exit_tests_agree_when_exact:
  assumes "is_double (scrollX c - 100)" "is_double (scrollX c + width c)"
    "is_double (scrollX c + width c + 100)"
  shows "OldMan_exitedLeft64 \<lparr>scrollX64 = Dbl (scrollX c), width64 = Dbl (width c)\<rparr>
           (patrolDirection s) (Dbl (sprite_x s)) = OldMan_exitedLeft c s"
    and "OldMan_exitedRight64 \<lparr>scrollX64 = Dbl (scrollX c), width64 = Dbl (width c)\<rparr>
           (patrolDirection s) (Dbl (sprite_x s)) = OldMan_exitedRight c s"
    and "Bully_exitedLeft64 \<lparr>scrollX64 = Dbl (scrollX c), width64 = Dbl (width c)\<rparr>
           (patrolDirection b) (Dbl (sprite_x b)) = Bully_exitedLeft c b"
    and "Bully_exitedRight64 \<lparr>scrollX64 = Dbl (scrollX c), width64 = Dbl (width c)\<rparr>
           (patrolDirection b) (Dbl (sprite_x b)) = Bully_exitedRight c b"
  using assms
  by (auto simp: exitedLeft64_exact exitedRight64_exact OldMan_exitedLeft_def OldMan_exitedRight_def
      Bully_exitedLeft_def Bully_exitedRight_def)

text \<open>
  Claim C2, as stated: for every frame, every position \<open>x\<close> and every offset \<open>d\<close>,
  translating \<open>scrollX\<close> and \<open>x\<close> by \<open>d\<close> leaves both results unchanged. In doubles the
  translation itself rounds. The double just below -100 is left of the left threshold
  of a camera at 0; moved by -150 it becomes -250 exactly (a tie, rounded to even), which
  is not left of the new threshold -250. On the right the double just above 900 has
  exited a camera at 0 of width 800, and moved by 150 it is 1050, the new threshold.
\<close>

theorem C2_translation_flips_exit_in_doubles:
  "is_double (- (100 + 1 / 2 ^ 46))
 \<and> OldMan_exitedLeft64 \<lparr>scrollX64 = Dbl 0, width64 = Dbl 800\<rparr> (- 1) (Dbl (- (100 + 1 / 2 ^ 46)))
 \<and> js_add (Dbl (- (100 + 1 / 2 ^ 46))) (Dbl (- 150)) = Dbl (- 250)
 \<and> js_add (Dbl 0) (Dbl (- 150)) = Dbl (- 150)
 \<and> \<not> OldMan_exitedLeft64 \<lparr>scrollX64 = js_add (Dbl 0) (Dbl (- 150)), width64 = Dbl 800\<rparr> (- 1)
        (js_add (Dbl (- (100 + 1 / 2 ^ 46))) (Dbl (- 150)))
 \<and> is_double (900 + 1 / 2 ^ 43)
 \<and> Bully_exitedRight64 \<lparr>scrollX64 = Dbl 0, width64 = Dbl 800\<rparr> 1 (Dbl (900 + 1 / 2 ^ 43))
 \<and> js_add (Dbl (900 + 1 / 2 ^ 43)) (Dbl 150) = Dbl 1050
 \<and> \<not> Bully_exitedRight64 \<lparr>scrollX64 = js_add (Dbl 0) (Dbl 150), width64 = Dbl 800\<rparr> 1
        (js_add (Dbl (900 + 1 / 2 ^ 43)) (Dbl 150))"
proof -
  have x1: "is_double (- (100 + 1 / 2 ^ 46))"
    by (rule is_doubleI[where k = "- 46" and n = "- (100 * 2 ^ 46 + 1)"]) (simp_all add: fp_steps)
  have m100: "to_double (- 100) = Dbl (- 100)"
    using int_is_double[of "- 100"] by (simp add: is_double_def)
  have m150: "to_double (- 150) = Dbl (- 150)"
    using int_is_double[of "- 150"] by (simp add: is_double_def)
  have m250: "to_double (- 250) = Dbl (- 250)"
    using int_is_double[of "- 250"] by (simp add: is_double_def)
  have s1: "to_double (- (100 + 1 / 2 ^ 46) + - 150) = Dbl (- 250)"
    by (rule to_doubleI[where k = "- 45" and n = "- (250 * 2 ^ 45)"]) (simp_all add: fp_steps)
  have x2: "is_double (900 + 1 / 2 ^ 43)"
    by (rule is_doubleI[where k = "- 43" and n = "900 * 2 ^ 43 + 1"]) (simp_all add: fp_steps)
  have p800: "to_double 800 = Dbl 800" using int_is_double[of 800] by (simp add: is_double_def)
  have p900: "to_double 900 = Dbl 900" using int_is_double[of 900] by (simp add: is_double_def)
  have p150: "to_double 150 = Dbl 150" using int_is_double[of 150] by (simp add: is_double_def)
  have p950: "to_double 950 = Dbl 950" using int_is_double[of 950] by (simp add: is_double_def)
  have p1050: "to_double 1050 = Dbl 1050" using int_is_double[of 1050] by (simp add: is_double_def)
  have s2: "to_double (900 + 1 / 2 ^ 43 + 150) = Dbl 1050"
    by (rule to_doubleI[where k = "- 42" and n = "1050 * 2 ^ 42"]) (simp_all add: fp_steps)
  show ?thesis
    using x1 x2 s1 s2 m100 m150 m250 p800 p900 p150 p950 p1050
    by (simp add: OldMan_exitedLeft64_def Bully_exitedRight64_def js_sub_def)
qed


lemma exit64_shift_left:
  assumes "is_double (s - 100)" "is_double (s + d)" "is_double (s + d - 100)" "is_double (x + d)"
  shows "OldMan_exitedLeft64 \<lparr>scrollX64 = js_add (Dbl s) (Dbl d), width64 = Dbl w\<rparr> pd (js_add (Dbl x) (Dbl d))
           = OldMan_exitedLeft64 \<lparr>scrollX64 = Dbl s, width64 = Dbl w\<rparr> pd (Dbl x)"
    and "Bully_exitedLeft64 \<lparr>scrollX64 = js_add (Dbl s) (Dbl d), width64 = Dbl w\<rparr> pd (js_add (Dbl x) (Dbl d))
           = Bully_exitedLeft64 \<lparr>scrollX64 = Dbl s, width64 = Dbl w\<rparr> pd (Dbl x)"
proof -
  have a: "js_add (Dbl s) (Dbl d) = Dbl (s + d)" "js_add (Dbl x) (Dbl d) = Dbl (x + d)"
    using assms by (simp_all add: is_double_def)
  show "OldMan_exitedLeft64 \<lparr>scrollX64 = js_add (Dbl s) (Dbl d), width64 = Dbl w\<rparr> pd (js_add (Dbl x) (Dbl d))
           = OldMan_exitedLeft64 \<lparr>scrollX64 = Dbl s, width64 = Dbl w\<rparr> pd (Dbl x)"
    unfolding a using assms by (simp add: exitedLeft64_exact)
  show "Bully_exitedLeft64 \<lparr>scrollX64 = js_add (Dbl s) (Dbl d), width64 = Dbl w\<rparr> pd (js_add (Dbl x) (Dbl d))
           = Bully_exitedLeft64 \<lparr>scrollX64 = Dbl s, width64 = Dbl w\<rparr> pd (Dbl x)"
    unfolding a using assms by (simp add: exitedLeft64_exact)
qed

lemma exit64_shift_right:
  assumes "is_double (s + w)" "is_double (s + w + 100)" "is_double (s + d)"
    "is_double (s + d + w)" "is_double (s + d + w + 100)" "is_double (x + d)"
  shows "OldMan_exitedRight64 \<lparr>scrollX64 = js_add (Dbl s) (Dbl d), width64 = Dbl w\<rparr> pd (js_add (Dbl x) (Dbl d))
           = OldMan_exitedRight64 \<lparr>scrollX64 = Dbl s, width64 = Dbl w\<rparr> pd (Dbl x)"
    and "Bully_exitedRight64 \<lparr>scrollX64 = js_add (Dbl s) (Dbl d), width64 = Dbl w\<rparr> pd (js_add (Dbl x) (Dbl d))
           = Bully_exitedRight64 \<lparr>scrollX64 = Dbl s, width64 = Dbl w\<rparr> pd (Dbl x)"
proof -
  have a: "js_add (Dbl s) (Dbl d) = Dbl (s + d)" "js_add (Dbl x) (Dbl d) = Dbl (x + d)"
    using assms by (simp_all add: is_double_def)
  show "OldMan_exitedRight64 \<lparr>scrollX64 = js_add (Dbl s) (Dbl d), width64 = Dbl w\<rparr> pd (js_add (Dbl x) (Dbl d))
           = OldMan_exitedRight64 \<lparr>scrollX64 = Dbl s, width64 = Dbl w\<rparr> pd (Dbl x)"
    unfolding a using assms by (simp add: exitedRight64_exact)
  show "Bully_exitedRight64 \<lparr>scrollX64 = js_add (Dbl s) (Dbl d), width64 = Dbl w\<rparr> pd (js_add (Dbl x) (Dbl d))
           = Bully_exitedRight64 \<lparr>scrollX64 = Dbl s, width64 = Dbl w\<rparr> pd (Dbl x)"
    unfolding a using assms by (simp add: exitedRight64_exact)
qed

lemma pixel_sums_are_doubles:
  fixes s w x d :: int
  assumes "\<bar>s\<bar> \<le> 2 ^ 50" "\<bar>w\<bar> \<le> 2 ^ 50" "\<bar>x\<bar> \<le> 2 ^ 50" "\<bar>d\<bar> \<le> 2 ^ 50"
  shows "is_double (real_of_int s - 100)" "is_double (real_of_int s + real_of_int d)"
    "is_double (real_of_int s + real_of_int d - 100)" "is_double (real_of_int x + real_of_int d)"
    "is_double (real_of_int s + real_of_int w)" "is_double (real_of_int s + real_of_int w + 100)"
    "is_double (real_of_int s + real_of_int d + real_of_int w)"
    "is_double (real_of_int s + real_of_int d + real_of_int w + 100)"
proof -
  have b: "\<bar>s - 100\<bar> < 2 ^ 53" "\<bar>s + d\<bar> < 2 ^ 53" "\<bar>s + d - 100\<bar> < 2 ^ 53" "\<bar>x + d\<bar> < 2 ^ 53"
    "\<bar>s + w\<bar> < 2 ^ 53" "\<bar>s + w + 100\<bar> < 2 ^ 53" "\<bar>s + d + w\<bar> < 2 ^ 53" "\<bar>s + d + w + 100\<bar> < 2 ^ 53"
    using assms by simp_all
  show "is_double (real_of_int s - 100)" using int_is_double[OF b(1)] by simp
  show "is_double (real_of_int s + real_of_int d)" using int_is_double[OF b(2)] by simp
  show "is_double (real_of_int s + real_of_int d - 100)" using int_is_double[OF b(3)] by simp
  show "is_double (real_of_int x + real_of_int d)" using int_is_double[OF b(4)] by simp
  show "is_double (real_of_int s + real_of_int w)" using int_is_double[OF b(5)] by simp
  show "is_double (real_of_int s + real_of_int w + 100)" using int_is_double[OF b(6)] by simp
  show "is_double (real_of_int s + real_of_int d + real_of_int w)" using int_is_double[OF b(7)] by simp
  show "is_double (real_of_int s + real_of_int d + real_of_int w + 100)" using int_is_double[OF b(8)] by simp
qed

text \<open>
  Claim C2, amended. Both \<^verbatim>\<open>update\<close> methods test exits against \<open>scrollX - 100\<close> on the
  left and \<open>scrollX + width + 100\<close> on the right, computed in double precision. Whenever
  the translated values \<open>x + d\<close>, \<open>scrollX + d\<close> and the threshold sums before and after
  the translation are doubles (nothing rounds), as they are for integer coordinates of
  magnitude up to \<open>2 ^ 50\<close>, the exited-left result is \<open>patrolDirection = -1\<close> and
  \<open>x - scrollX < -100\<close>, the exited-right result is \<open>patrolDirection = 1\<close> and
  \<open>x - scrollX > width + 100\<close>, and translating \<open>scrollX\<close> and \<open>x\<close> by \<open>d\<close> leaves both
  unchanged, for the OldMan and for the Bully.
\<close>

theorem C2_exit_detection_translation_when_exact:
  "(is_double (s - 100) \<and> is_double (s + d) \<and> is_double (s + d - 100) \<and> is_double (x + d) \<longrightarrow>
      OldMan_exitedLeft64 \<lparr>scrollX64 = Dbl s, width64 = Dbl w\<rparr> pd (Dbl x) = (pd = - 1 \<and> x - s < - 100)
    \<and> Bully_exitedLeft64 \<lparr>scrollX64 = Dbl s, width64 = Dbl w\<rparr> pd (Dbl x) = (pd = - 1 \<and> x - s < - 100)
    \<and> OldMan_exitedLeft64 \<lparr>scrollX64 = js_add (Dbl s) (Dbl d), width64 = Dbl w\<rparr> pd (js_add (Dbl x) (Dbl d))
        = OldMan_exitedLeft64 \<lparr>scrollX64 = Dbl s, width64 = Dbl w\<rparr> pd (Dbl x)
    \<and> Bully_exitedLeft64 \<lparr>scrollX64 = js_add (Dbl s) (Dbl d), width64 = Dbl w\<rparr> pd (js_add (Dbl x) (Dbl d))
        = Bully_exitedLeft64 \<lparr>scrollX64 = Dbl s, width64 = Dbl w\<rparr> pd (Dbl x))
 \<and> (is_double (s + w) \<and> is_double (s + w + 100) \<and> is_double (s + d) \<and> is_double (s + d + w)
      \<and> is_double (s + d + w + 100) \<and> is_double (x + d) \<longrightarrow>
      OldMan_exitedRight64 \<lparr>scrollX64 = Dbl s, width64 = Dbl w\<rparr> pd (Dbl x) = (pd = 1 \<and> w + 100 < x - s)
    \<and> Bully_exitedRight64 \<lparr>scrollX64 = Dbl s, width64 = Dbl w\<rparr> pd (Dbl x) = (pd = 1 \<and> w + 100 < x - s)
    \<and> OldMan_exitedRight64 \<lparr>scrollX64 = js_add (Dbl s) (Dbl d), width64 = Dbl w\<rparr> pd (js_add (Dbl x) (Dbl d))
        = OldMan_exitedRight64 \<lparr>scrollX64 = Dbl s, width64 = Dbl w\<rparr> pd (Dbl x)
    \<and> Bully_exitedRight64 \<lparr>scrollX64 = js_add (Dbl s) (Dbl d), width64 = Dbl w\<rparr> pd (js_add (Dbl x) (Dbl d))
        = Bully_exitedRight64 \<lparr>scrollX64 = Dbl s, width64 = Dbl w\<rparr> pd (Dbl x))
 \<and> (\<bar>si\<bar> \<le> 2 ^ 50 \<and> \<bar>wi\<bar> \<le> 2 ^ 50 \<and> \<bar>xi\<bar> \<le> 2 ^ 50 \<and> \<bar>di\<bar> \<le> 2 ^ 50 \<longrightarrow>
      OldMan_exitedLeft64 \<lparr>scrollX64 = js_add (Dbl (of_int si)) (Dbl (of_int di)), width64 = Dbl (of_int wi)\<rparr> pd
          (js_add (Dbl (of_int xi)) (Dbl (of_int di)))
        = OldMan_exitedLeft64 \<lparr>scrollX64 = Dbl (of_int si), width64 = Dbl (of_int wi)\<rparr> pd (Dbl (of_int xi))
    \<and> OldMan_exitedRight64 \<lparr>scrollX64 = js_add (Dbl (of_int si)) (Dbl (of_int di)), width64 = Dbl (of_int wi)\<rparr> pd
          (js_add (Dbl (of_int xi)) (Dbl (of_int di)))
        = OldMan_exitedRight64 \<lparr>scrollX64 = Dbl (of_int si), width64 = Dbl (of_int wi)\<rparr> pd (Dbl (of_int xi))
    \<and> Bully_exitedLeft64 \<lparr>scrollX64 = js_add (Dbl (of_int si)) (Dbl (of_int di)), width64 = Dbl (of_int wi)\<rparr> pd
          (js_add (Dbl (of_int xi)) (Dbl (of_int di)))
        = Bully_exitedLeft64 \<lparr>scrollX64 = Dbl (of_int si), width64 = Dbl (of_int wi)\<rparr> pd (Dbl (of_int xi))
    \<and> Bully_exitedRight64 \<lparr>scrollX64 = js_add (Dbl (of_int si)) (Dbl (of_int di)), width64 = Dbl (of_int wi)\<rparr> pd
          (js_add (Dbl (of_int xi)) (Dbl (of_int di)))
        = Bully_exitedRight64 \<lparr>scrollX64 = Dbl (of_int si), width64 = Dbl (of_int wi)\<rparr> pd (Dbl (of_int xi))
    \<and> OldMan_exitedLeft64 \<lparr>scrollX64 = Dbl (of_int si), width64 = Dbl (of_int wi)\<rparr> pd (Dbl (of_int xi))
        = (pd = - 1 \<and> xi - si < - 100)
    \<and> OldMan_exitedRight64 \<lparr>scrollX64 = Dbl (of_int si), width64 = Dbl (of_int wi)\<rparr> pd (Dbl (of_int xi))
        = (pd = 1 \<and> wi + 100 < xi - si)
    \<and> Bully_exitedLeft64 \<lparr>scrollX64 = Dbl (of_int si), width64 = Dbl (of_int wi)\<rparr> pd (Dbl (of_int xi))
        = (pd = - 1 \<and> xi - si < - 100)
    \<and> Bully_exitedRight64 \<lparr>scrollX64 = Dbl (of_int si), width64 = Dbl (of_int wi)\<rparr> pd (Dbl (of_int xi))
        = (pd = 1 \<and> wi + 100 < xi - si))"
proof (intro conjI impI)
  assume h: "is_double (s - 100) \<and> is_double (s + d) \<and> is_double (s + d - 100) \<and> is_double (x + d)"
  then show "OldMan_exitedLeft64 \<lparr>scrollX64 = Dbl s, width64 = Dbl w\<rparr> pd (Dbl x) = (pd = - 1 \<and> x - s < - 100)"
    and "Bully_exitedLeft64 \<lparr>scrollX64 = Dbl s, width64 = Dbl w\<rparr> pd (Dbl x) = (pd = - 1 \<and> x - s < - 100)"
    by (simp_all add: exitedLeft64_exact)
  from h have a: "is_double (s - 100)" "is_double (s + d)" "is_double (s + d - 100)" "is_double (x + d)"
    by simp_all
  show "OldMan_exitedLeft64 \<lparr>scrollX64 = js_add (Dbl s) (Dbl d), width64 = Dbl w\<rparr> pd (js_add (Dbl x) (Dbl d))
        = OldMan_exitedLeft64 \<lparr>scrollX64 = Dbl s, width64 = Dbl w\<rparr> pd (Dbl x)"
    by (rule exit64_shift_left(1)[OF a])
  show "Bully_exitedLeft64 \<lparr>scrollX64 = js_add (Dbl s) (Dbl d), width64 = Dbl w\<rparr> pd (js_add (Dbl x) (Dbl d))
        = Bully_exitedLeft64 \<lparr>scrollX64 = Dbl s, width64 = Dbl w\<rparr> pd (Dbl x)"
    by (rule exit64_shift_left(2)[OF a])
next
  assume h: "is_double (s + w) \<and> is_double (s + w + 100) \<and> is_double (s + d) \<and> is_double (s + d + w)
      \<and> is_double (s + d + w + 100) \<and> is_double (x + d)"
  then show "OldMan_exitedRight64 \<lparr>scrollX64 = Dbl s, width64 = Dbl w\<rparr> pd (Dbl x) = (pd = 1 \<and> w + 100 < x - s)"
    and "Bully_exitedRight64 \<lparr>scrollX64 = Dbl s, width64 = Dbl w\<rparr> pd (Dbl x) = (pd = 1 \<and> w + 100 < x - s)"
    by (simp_all add: exitedRight64_exact)
  from h have a: "is_double (s + w)" "is_double (s + w + 100)" "is_double (s + d)"
    "is_double (s + d + w)" "is_double (s + d + w + 100)" "is_double (x + d)"
    by simp_all
  show "OldMan_exitedRight64 \<lparr>scrollX64 = js_add (Dbl s) (Dbl d), width64 = Dbl w\<rparr> pd (js_add (Dbl x) (Dbl d))
        = OldMan_exitedRight64 \<lparr>scrollX64 = Dbl s, width64 = Dbl w\<rparr> pd (Dbl x)"
    by (rule exit64_shift_right(1)[OF a])
  show "Bully_exitedRight64 \<lparr>scrollX64 = js_add (Dbl s) (Dbl d), width64 = Dbl w\<rparr> pd (js_add (Dbl x) (Dbl d))
        = Bully_exitedRight64 \<lparr>scrollX64 = Dbl s, width64 = Dbl w\<rparr> pd (Dbl x)"
    by (rule exit64_shift_right(2)[OF a])
next
  assume h: "\<bar>si\<bar> \<le> 2 ^ 50 \<and> \<bar>wi\<bar> \<le> 2 ^ 50 \<and> \<bar>xi\<bar> \<le> 2 ^ 50 \<and> \<bar>di\<bar> \<le> 2 ^ 50"
  then have b: "\<bar>si\<bar> \<le> 2 ^ 50" "\<bar>wi\<bar> \<le> 2 ^ 50" "\<bar>xi\<bar> \<le> 2 ^ 50" "\<bar>di\<bar> \<le> 2 ^ 50" by simp_all
  note p = pixel_sums_are_doubles[OF b]
  show "OldMan_exitedLeft64 \<lparr>scrollX64 = js_add (Dbl (of_int si)) (Dbl (of_int di)), width64 = Dbl (of_int wi)\<rparr> pd
          (js_add (Dbl (of_int xi)) (Dbl (of_int di)))
        = OldMan_exitedLeft64 \<lparr>scrollX64 = Dbl (of_int si), width64 = Dbl (of_int wi)\<rparr> pd (Dbl (of_int xi))"
    by (rule exit64_shift_left(1)[OF p(1) p(2) p(3) p(4)])
  show "OldMan_exitedRight64 \<lparr>scrollX64 = js_add (Dbl (of_int si)) (Dbl (of_int di)), width64 = Dbl (of_int wi)\<rparr> pd
          (js_add (Dbl (of_int xi)) (Dbl (of_int di)))
        = OldMan_exitedRight64 \<lparr>scrollX64 = Dbl (of_int si), width64 = Dbl (of_int wi)\<rparr> pd (Dbl (of_int xi))"
    by (rule exit64_shift_right(1)[OF p(5) p(6) p(2) p(7) p(8) p(4)])
  show "Bully_exitedLeft64 \<lparr>scrollX64 = js_add (Dbl (of_int si)) (Dbl (of_int di)), width64 = Dbl (of_int wi)\<rparr> pd
          (js_add (Dbl (of_int xi)) (Dbl (of_int di)))
        = Bully_exitedLeft64 \<lparr>scrollX64 = Dbl (of_int si), width64 = Dbl (of_int wi)\<rparr> pd (Dbl (of_int xi))"
    by (rule exit64_shift_left(2)[OF p(1) p(2) p(3) p(4)])
  show "Bully_exitedRight64 \<lparr>scrollX64 = js_add (Dbl (of_int si)) (Dbl (of_int di)), width64 = Dbl (of_int wi)\<rparr> pd
          (js_add (Dbl (of_int xi)) (Dbl (of_int di)))
        = Bully_exitedRight64 \<lparr>scrollX64 = Dbl (of_int si), width64 = Dbl (of_int wi)\<rparr> pd (Dbl (of_int xi))"
    by (rule exit64_shift_right(2)[OF p(5) p(6) p(2) p(7) p(8) p(4)])
  show "OldMan_exitedLeft64 \<lparr>scrollX64 = Dbl (of_int si), width64 = Dbl (of_int wi)\<rparr> pd (Dbl (of_int xi))
        = (pd = - 1 \<and> xi - si < - 100)"
    using exitedLeft64_exact(1)[OF p(1), of "of_int wi" pd "of_int xi"] by (simp add: of_int_diff[symmetric] del: of_int_diff) linarith
  show "OldMan_exitedRight64 \<lparr>scrollX64 = Dbl (of_int si), width64 = Dbl (of_int wi)\<rparr> pd (Dbl (of_int xi))
        = (pd = 1 \<and> wi + 100 < xi - si)"
    using exitedRight64_exact(1)[OF p(5) p(6), of pd "of_int xi"] by (simp add: of_int_diff[symmetric] del: of_int_diff) linarith
  show "Bully_exitedLeft64 \<lparr>scrollX64 = Dbl (of_int si), width64 = Dbl (of_int wi)\<rparr> pd (Dbl (of_int xi))
        = (pd = - 1 \<and> xi - si < - 100)"
    using exitedLeft64_exact(2)[OF p(1), of "of_int wi" pd "of_int xi"] by (simp add: of_int_diff[symmetric] del: of_int_diff) linarith
  show "Bully_exitedRight64 \<lparr>scrollX64 = Dbl (of_int si), width64 = Dbl (of_int wi)\<rparr> pd (Dbl (of_int xi))
        = (pd = 1 \<and> wi + 100 < xi - si)"
    using exitedRight64_exact(2)[OF p(5) p(6), of pd "of_int xi"] by (simp add: of_int_diff[symmetric] del: of_int_diff) linarith
qed

theorem C2_exit_detection_translation_when_exact_witness:
  "is_double (1 / 2 - 100) \<and> is_double (1 / 2 + - (301 / 2)) \<and> is_double (1 / 2 + - (301 / 2) - 100)
 \<and> is_double (- (481 / 4) + - (301 / 2))
 \<and> OldMan_exitedLeft64 \<lparr>scrollX64 = Dbl (1 / 2), width64 = Dbl 800\<rparr> (- 1) (Dbl (- (481 / 4)))
 \<and> OldMan_exitedLeft64 \<lparr>scrollX64 = js_add (Dbl (1 / 2)) (Dbl (- (301 / 2))), width64 = Dbl 800\<rparr> (- 1)
      (js_add (Dbl (- (481 / 4))) (Dbl (- (301 / 2))))
 \<and> \<bar>0 :: int\<bar> \<le> 2 ^ 50 \<and> \<bar>800 :: int\<bar> \<le> 2 ^ 50 \<and> \<bar>1000 :: int\<bar> \<le> 2 ^ 50 \<and> \<bar>150 :: int\<bar> \<le> 2 ^ 50
 \<and> Bully_exitedRight64 \<lparr>scrollX64 = Dbl 0, width64 = Dbl 800\<rparr> 1 (Dbl 1000)
 \<and> Bully_exitedRight64 \<lparr>scrollX64 = js_add (Dbl 0) (Dbl 150), width64 = Dbl 800\<rparr> 1
      (js_add (Dbl 1000) (Dbl 150))
 \<and> \<not> OldMan_exitedRight64 \<lparr>scrollX64 = Dbl 0, width64 = Dbl 800\<rparr> 1 (Dbl 900)
 \<and> \<not> OldMan_exitedRight64 \<lparr>scrollX64 = js_add (Dbl 0) (Dbl 150), width64 = Dbl 800\<rparr> 1
      (js_add (Dbl 900) (Dbl 150))
 \<and> \<not> Bully_exitedLeft64 \<lparr>scrollX64 = Dbl 0, width64 = Dbl 800\<rparr> (- 1) (Dbl 900)
 \<and> \<not> Bully_exitedLeft64 \<lparr>scrollX64 = js_add (Dbl 0) (Dbl 150), width64 = Dbl 800\<rparr> (- 1)
      (js_add (Dbl 900) (Dbl 150))"
proof -
  have a: "is_double (1 / 2 - 100)"
    by (rule is_doubleI[where k = "- 46" and n = "- (199 * 2 ^ 45)"]) (simp_all add: fp_steps)
  have b: "is_double (1 / 2 + - (301 / 2))"
    using int_is_double[of "- 150"] by simp
  have c: "is_double (1 / 2 + - (301 / 2) - 100)"
    using int_is_double[of "- 250"] by simp
  have d: "is_double (- (481 / 4) + - (301 / 2))"
    by (rule is_doubleI[where k = "- 44" and n = "- (1083 * 2 ^ 42)"]) (simp_all add: fp_steps)
  have i: "\<bar>0 :: int\<bar> \<le> 2 ^ 50" "\<bar>800 :: int\<bar> \<le> 2 ^ 50" "\<bar>1000 :: int\<bar> \<le> 2 ^ 50"
    "\<bar>900 :: int\<bar> \<le> 2 ^ 50" "\<bar>150 :: int\<bar> \<le> 2 ^ 50"
    by simp_all
  from a b c d i
    C2_exit_detection_translation_when_exact
      [where s = "1 / 2" and d = "- (301 / 2)" and x = "- (481 / 4)" and w = 800 and pd = "- 1"
         and si = 0 and wi = 800 and xi = 1000 and di = 150]
    C2_exit_detection_translation_when_exact
      [where s = "1 / 2" and d = "- (301 / 2)" and x = "- (481 / 4)" and w = 800 and pd = 1
         and si = 0 and wi = 800 and xi = 1000 and di = 150]
    C2_exit_detection_translation_when_exact
      [where s = "1 / 2" and d = "- (301 / 2)" and x = "- (481 / 4)" and w = 800 and pd = 1
         and si = 0 and wi = 800 and xi = 900 and di = 150]
    C2_exit_detection_translation_when_exact
      [where s = "1 / 2" and d = "- (301 / 2)" and x = "- (481 / 4)" and w = 800 and pd = "- 1"
         and si = 0 and wi = 800 and xi = 900 and di = 150]
  show ?thesis by simp
qed

text \<open>
  Claim C6. \<^verbatim>\<open>update\<close> changes the state only when the sprite has crossed the threshold
  on the side it is walking towards: left of \<open>scrollX - 100\<close> with \<open>patrolDirection = -1\<close>,
  right of \<open>scrollX + width + 100\<close> with \<open>patrolDirection = 1\<close>. Being beyond the
  opposite threshold never changes the state (for any camera whose two thresholds are
  not crossed over, that is \<open>width \<ge> -200\<close>).
\<close>

theorem C6_exit_only_in_patrol_direction:
  "(currentState (OldMan_update e p s) \<noteq> currentState s \<longrightarrow>
      (patrolDirection s = - 1 \<and> sprite_x s < scrollX (cam e) - 100) \<or>
      (patrolDirection s = 1 \<and> sprite_x s > scrollX (cam e) + width (cam e) + 100))
 \<and> (currentState (Bully_update e p b) \<noteq> currentState b \<longrightarrow>
      (patrolDirection b = - 1 \<and> sprite_x b < scrollX (cam e) - 100) \<or>
      (patrolDirection b = 1 \<and> sprite_x b > scrollX (cam e) + width (cam e) + 100))
 \<and> (patrolDirection s = - 1 \<and> - 200 \<le> width (cam e) \<and> sprite_x s > scrollX (cam e) + width (cam e) + 100 \<longrightarrow>
      currentState (OldMan_update e p s) = currentState s)
 \<and> (patrolDirection s = 1 \<and> - 200 \<le> width (cam e) \<and> sprite_x s < scrollX (cam e) - 100 \<longrightarrow>
      currentState (OldMan_update e p s) = currentState s)
 \<and> (patrolDirection b = - 1 \<and> - 200 \<le> width (cam e) \<and> sprite_x b > scrollX (cam e) + width (cam e) + 100 \<longrightarrow>
      currentState (Bully_update e p b) = currentState b)
 \<and> (patrolDirection b = 1 \<and> - 200 \<le> width (cam e) \<and> sprite_x b < scrollX (cam e) - 100 \<longrightarrow>
      currentState (Bully_update e p b) = currentState b)"
  by (simp only: om_update_state b_update_state)
     (auto simp: OldMan_exitedLeft_def OldMan_exitedRight_def Bully_exitedLeft_def Bully_exitedRight_def)

theorem C6_exit_only_in_patrol_direction_witness:
  "currentState (OldMan_update demo_env (Some 400) (OldMan_step (Physics 17) demo_patrolling))
     \<noteq> currentState (OldMan_step (Physics 17) demo_patrolling)
 \<and> patrolDirection (OldMan_step (Physics 17) demo_patrolling) = - 1
 \<and> sprite_x (OldMan_step (Physics 17) demo_patrolling) < scrollX (cam demo_env) - 100
 \<and> currentState (Bully_update demo_env (Some 400) (Bully_step (Physics 11) demo_charging))
     \<noteq> currentState (Bully_step (Physics 11) demo_charging)
 \<and> patrolDirection (Bully_step (Physics 11) demo_charging) = - 1
 \<and> sprite_x (Bully_step (Physics 11) demo_charging) < scrollX (cam demo_env) - 100
 \<and> patrolDirection demo_patrolling = - 1
 \<and> - 200 \<le> width (cam (demo_env\<lparr>cam := \<lparr>scrollX = - 150, width = 800\<rparr>\<rparr>))
 \<and> sprite_x demo_patrolling > - 150 + 800 + 100
 \<and> currentState (OldMan_update (demo_env\<lparr>cam := \<lparr>scrollX = - 150, width = 800\<rparr>\<rparr>) (Some 400) demo_patrolling)
     = currentState demo_patrolling
 \<and> patrolDirection demo_charging = - 1
 \<and> sprite_x demo_charging > - 150 + 800 + 100
 \<and> currentState (Bully_update (demo_env\<lparr>cam := \<lparr>scrollX = - 150, width = 800\<rparr>\<rparr>) (Some 400) demo_charging)
     = currentState demo_charging
 \<and> patrolDirection demo_rightward = 1
 \<and> sprite_x demo_rightward < 150 - 100
 \<and> currentState (OldMan_update (demo_env\<lparr>cam := \<lparr>scrollX = 150, width = 800\<rparr>\<rparr>) (Some 400) demo_rightward)
     = currentState demo_rightward
 \<and> patrolDirection demo_rightward_bully = 1
 \<and> sprite_x demo_rightward_bully < 150 - 100
 \<and> currentState (Bully_update (demo_env\<lparr>cam := \<lparr>scrollX = 150, width = 800\<rparr>\<rparr>) (Some 400) demo_rightward_bully)
     = currentState demo_rightward_bully"
proof -
  have h: "currentState (OldMan_update demo_env (Some 400) (OldMan_step (Physics 17) demo_patrolling))
     \<noteq> currentState (OldMan_step (Physics 17) demo_patrolling)"
    "currentState (Bully_update demo_env (Some 400) (Bully_step (Physics 11) demo_charging))
     \<noteq> currentState (Bully_step (Physics 11) demo_charging)"
    "patrolDirection demo_patrolling = - 1" "sprite_x demo_patrolling = 900"
    "patrolDirection demo_charging = - 1" "sprite_x demo_charging = 900"
    "patrolDirection demo_rightward = 1" "sprite_x demo_rightward = - 100"
    "patrolDirection demo_rightward_bully = 1" "sprite_x demo_rightward_bully = - 100"
    "sprite_x (OldMan_step (Physics 17) demo_patrolling) = - 120"
    "patrolDirection (OldMan_step (Physics 17) demo_patrolling) = - 1"
    "sprite_x (Bully_step (Physics 11) demo_charging) = - 200"
    "patrolDirection (Bully_step (Physics 11) demo_charging) = - 1"
    by (simp_all add: eval_defs)
  from h
    C6_exit_only_in_patrol_direction
      [where e = demo_env and p = "Some 400" and s = "OldMan_step (Physics 17) demo_patrolling"
         and b = "Bully_step (Physics 11) demo_charging"]
    C6_exit_only_in_patrol_direction
      [where e = "demo_env\<lparr>cam := \<lparr>scrollX = - 150, width = 800\<rparr>\<rparr>" and p = "Some 400"
         and s = demo_patrolling and b = demo_charging]
    C6_exit_only_in_patrol_direction
      [where e = "demo_env\<lparr>cam := \<lparr>scrollX = 150, width = 800\<rparr>\<rparr>" and p = "Some 400"
         and s = demo_rightward and b = demo_rightward_bully]
  show ?thesis by simp
qed

section \<open>The squirrel of the back-pain phase\<close>

text \<open>
  Claim C10. \<^verbatim>\<open>startBackPain\<close> schedules a 1000 ms closure that spawns, if the old man
  is still in back pain, a squirrel at the world position (850, 555) whatever the
  camera is; when the viewport does not contain x = 850 the squirrel is created
  outside it.
\<close>

theorem C10_squirrel_fixed_world_position:
  "(currentState s = Backpain \<longrightarrow>
      squirrels (OldMan_callback OmCbSquirrel e s) = squirrels s @ [(850, 555)])
 \<and> (currentState s = Backpain \<and> \<not> inViewport (cam e) 850 \<longrightarrow>
      \<not> inViewport (cam e) (fst (last (squirrels (OldMan_callback OmCbSquirrel e s)))))
 \<and> squirrels (OldMan_callback OmCbSquirrel e s) = squirrels (OldMan_callback OmCbSquirrel e' s)
 \<and> squirrels (OldMan_spawnSquirrel s) = squirrels s @ [(850, 555)]
 \<and> (backPainThisPatrol s < MAX_BACKPAIN_PER_PATROL \<longrightarrow>
      om_clock (OldMan_startBackPain r s) ! length (om_clock s)
        = \<lparr>delay = 1000, loop = False, callback = OmCbSquirrel, status = Pending\<rparr>)"
  by (auto simp: OldMan_spawnSquirrel_def OldMan_startBackPain_def OldMan_stopThrowingTimer_def
      OldMan_stopWalkAnimation_def Let_def addTimer_def removeTimer_def nth_append SQUIRREL_DELAY_def
      split: option.splits)

theorem C10_squirrel_fixed_world_position_witness:
  "backPainThisPatrol demo_patrolling < MAX_BACKPAIN_PER_PATROL
 \<and> callback (om_clock (OldMan_startBackPain 0 demo_patrolling) ! length (om_clock demo_patrolling))
      = OmCbSquirrel
 \<and> currentState (OldMan_fire 4 far_env demo_patrolling) = Backpain
 \<and> \<not> inViewport (cam far_env) 850
 \<and> squirrels (OldMan_callback OmCbSquirrel far_env (OldMan_fire 4 far_env demo_patrolling)) = [(850, 555)]
 \<and> \<not> inViewport (cam far_env)
       (fst (last (squirrels (OldMan_callback OmCbSquirrel far_env (OldMan_fire 4 far_env demo_patrolling)))))"
proof -
  have h: "backPainThisPatrol demo_patrolling < MAX_BACKPAIN_PER_PATROL"
    "currentState (OldMan_fire 4 far_env demo_patrolling) = Backpain"
    "\<not> inViewport (cam far_env) 850"
    "squirrels (OldMan_fire 4 far_env demo_patrolling) = []"
    by (simp_all add: eval_defs)
  from h
    C10_squirrel_fixed_world_position
      [where s = "OldMan_fire 4 far_env demo_patrolling" and e = far_env and e' = far_env and r = 0]
    C10_squirrel_fixed_world_position
      [where s = demo_patrolling and e = far_env and e' = far_env and r = 0]
  show ?thesis by simp
qed

section \<open>Budgets per traversal\<close>

text \<open>
  Outside \<^verbatim>\<open>startEntering\<close> the two measures never change: a stall raises both
  counters of the old man by one, a throw of the bully adds one word bubble and raises
  \<open>throwCount\<close> by one, and nothing else touches them.
\<close>

lemma om_cb_pot:
  "cb \<noteq> OmCbStart \<Longrightarrow> cb \<noteq> OmCbReentry \<Longrightarrow> om_pot (OldMan_callback cb e s) = om_pot s"
  by (cases cb) (auto simp: om_pot_def om_defs Let_def MAX_BACKPAIN_PER_PATROL_def split: option.splits)

lemma om_pot_clock: "om_pot (s\<lparr>om_clock := k\<rparr>) = om_pot s"
  by (simp add: om_pot_def)

lemma om_update_pot: "om_pot (OldMan_update e p s) = om_pot s"
  by (cases p) (auto simp: om_pot_def OldMan_update_def om_defs Let_def)

lemma om_cleanup_pot: "om_pot (OldMan_cleanup s) = om_pot s"
  by (auto simp: om_pot_def OldMan_cleanup_def om_defs destroy_def Let_def split: option.splits)

lemma om_step_pot: "\<not> OldMan_enters ev s \<Longrightarrow> om_pot (OldMan_step ev s) = om_pot s"
proof (cases ev)
  case (Fire h e)
  assume "\<not> OldMan_enters ev s"
  with Fire show ?thesis
    by (auto simp: OldMan_fire_def om_cb_pot om_pot_clock)
next
  case (Update e p)
  then show ?thesis by (simp add: om_update_pot)
next
  case (Physics dt)
  then show ?thesis by (simp add: om_pot_def)
next
  case Cleanup
  then show ?thesis by (simp add: om_cleanup_pot)
qed

lemma om_run_pot: "OldMan_oneTraversal evs s \<Longrightarrow> om_pot (OldMan_run evs s) = om_pot s"
proof (induction evs arbitrary: s)
  case Nil
  show ?case by simp
next
  case (Cons ev evs)
  from Cons.prems have ne: "\<not> OldMan_enters ev s" and rest: "OldMan_oneTraversal evs (OldMan_step ev s)"
    by (auto split: if_splits)
  from Cons.IH[OF rest] om_step_pot[OF ne] show ?case by simp
qed

lemma b_cb_pot:
  "cb \<noteq> BCbEntry \<Longrightarrow> cb \<noteq> BCbReentry \<Longrightarrow> b_pot (Bully_callback cb e s) = b_pot s"
  by (cases cb) (auto simp: b_pot_def b_defs Let_def MAX_THROWS_def split: option.splits)

lemma b_pot_clock: "b_pot (s\<lparr>b_clock := k\<rparr>) = b_pot s"
  by (simp add: b_pot_def)

lemma b_update_pot: "b_pot (Bully_update e p s) = b_pot s"
  by (cases p) (auto simp: b_pot_def Bully_update_def b_defs Let_def)

lemma b_cleanup_pot: "b_pot (Bully_cleanup s) = b_pot s"
  by (auto simp: b_pot_def Bully_cleanup_def b_defs destroy_def Let_def split: option.splits)

lemma b_step_pot: "\<not> Bully_enters ev s \<Longrightarrow> b_pot (Bully_step ev s) = b_pot s"
proof (cases ev)
  case (Fire h e)
  assume "\<not> Bully_enters ev s"
  with Fire show ?thesis
    by (auto simp: Bully_fire_def b_cb_pot b_pot_clock)
next
  case (Update e p)
  then show ?thesis by (simp add: b_update_pot)
next
  case (Physics dt)
  then show ?thesis by (simp add: b_pot_def)
next
  case Cleanup
  then show ?thesis by (simp add: b_cleanup_pot)
qed

lemma b_run_pot: "Bully_oneTraversal evs s \<Longrightarrow> b_pot (Bully_run evs s) = b_pot s"
proof (induction evs arbitrary: s)
  case Nil
  show ?case by simp
next
  case (Cons ev evs)
  from Cons.prems have ne: "\<not> Bully_enters ev s" and rest: "Bully_oneTraversal evs (Bully_step ev s)"
    by (auto split: if_splits)
  from Cons.IH[OF rest] b_step_pot[OF ne] show ?case by simp
qed


lemma om_enters_resets:
  "OldMan_enters ev s \<Longrightarrow>
     backPainThisPatrol (OldMan_step ev s) = 0 \<and> backPainCount (OldMan_step ev s) = backPainCount s"
  by (cases ev) (auto simp: OldMan_fire_def OldMan_startEntering_def OldMan_showEntryWarning_def
      OldMan_prepareReentry_def Let_def)

lemma b_enters_resets:
  "Bully_enters ev s \<Longrightarrow> \<not> Bully_gone s \<Longrightarrow>
     throwCount (Bully_step ev s) = 0 \<and> currentState (Bully_step ev s) = Entering"
  by (cases ev) (auto simp: Bully_fire_def Bully_startEntering_def Bully_prepareReentry_def
      Bully_gone_def Let_def)

lemma b_enters_log:
  "Bully_enters ev s \<Longrightarrow> bubbleLog (Bully_step ev s) = bubbleLog s"
  by (cases ev) (auto simp: Bully_fire_def Bully_startEntering_def Bully_prepareReentry_def
      Bully_gone_def Let_def)

text \<open>
  Claim C5. Every step that starts a traversal resets \<open>backPainThisPatrol\<close> to zero, and
  over any run that stays within that traversal, however long and whatever timers fire
  in it, the old man enters the back-pain branch at most once (\<open>backPainCount\<close> grows by
  at most \<open>MAX_BACKPAIN_PER_PATROL = 1\<close>); once the counter has reached the maximum,
  \<^verbatim>\<open>startBackPain\<close> changes nothing.
\<close>

theorem C5_backpain_once_per_traversal:
  "(OldMan_enters ev s \<longrightarrow> backPainThisPatrol (OldMan_step ev s) = 0)
 \<and> (OldMan_enters ev s \<and> OldMan_oneTraversal evs (OldMan_step ev s) \<longrightarrow>
      backPainCount (OldMan_run evs (OldMan_step ev s)) \<le> backPainCount s + 1)
 \<and> (OldMan_oneTraversal evs s \<longrightarrow>
      backPainCount (OldMan_run evs s)
        \<le> backPainCount s + (MAX_BACKPAIN_PER_PATROL - backPainThisPatrol s))
 \<and> (MAX_BACKPAIN_PER_PATROL \<le> backPainThisPatrol s \<longrightarrow> OldMan_startBackPain r s = s)"
proof -
  have gen: "backPainCount (OldMan_run evs u)
               \<le> backPainCount u + (MAX_BACKPAIN_PER_PATROL - backPainThisPatrol u)"
    if h: "OldMan_oneTraversal evs u" for u
  proof -
    have "backPainCount (OldMan_run evs u) \<le> om_pot (OldMan_run evs u)"
      by (simp add: om_pot_def)
    also have "\<dots> = om_pot u"
      by (rule om_run_pot[OF h])
    finally show ?thesis by (simp add: om_pot_def)
  qed
  have ent: "backPainCount (OldMan_run evs (OldMan_step ev s)) \<le> backPainCount s + 1"
    if e: "OldMan_enters ev s" and h: "OldMan_oneTraversal evs (OldMan_step ev s)"
    using gen[OF h] om_enters_resets[OF e] by (simp add: MAX_BACKPAIN_PER_PATROL_def)
  have ref: "OldMan_startBackPain r s = s" if "MAX_BACKPAIN_PER_PATROL \<le> backPainThisPatrol s"
    using that by (simp add: OldMan_startBackPain_def)
  show ?thesis using gen[of s] ent ref om_enters_resets[of ev s] by blast
qed

theorem C5_backpain_once_per_traversal_witness:
  "OldMan_enters (Fire 0 demo_env) demo_oldman
 \<and> backPainThisPatrol (OldMan_step (Fire 0 demo_env) demo_oldman) = 0
 \<and> OldMan_oneTraversal demo_stall_run (OldMan_step (Fire 0 demo_env) demo_oldman)
 \<and> backPainCount (OldMan_run demo_stall_run (OldMan_step (Fire 0 demo_env) demo_oldman)) = 1
 \<and> backPainCount (OldMan_run demo_stall_run (OldMan_step (Fire 0 demo_env) demo_oldman))
      \<le> backPainCount demo_oldman + 1
 \<and> MAX_BACKPAIN_PER_PATROL
      \<le> backPainThisPatrol (OldMan_run demo_stall_run (OldMan_step (Fire 0 demo_env) demo_oldman))
 \<and> OldMan_startBackPain 0 (OldMan_run demo_stall_run (OldMan_step (Fire 0 demo_env) demo_oldman))
      = OldMan_run demo_stall_run (OldMan_step (Fire 0 demo_env) demo_oldman)"
proof -
  have e: "OldMan_enters (Fire 0 demo_env) demo_oldman"
    by (simp add: eval_defs)
  have h: "OldMan_oneTraversal demo_stall_run (OldMan_step (Fire 0 demo_env) demo_oldman)"
    by (simp add: demo_stall_run_def eval_defs)
  have n: "backPainCount (OldMan_run demo_stall_run (OldMan_step (Fire 0 demo_env) demo_oldman)) = 1"
    and m: "MAX_BACKPAIN_PER_PATROL
      \<le> backPainThisPatrol (OldMan_run demo_stall_run (OldMan_step (Fire 0 demo_env) demo_oldman))"
    by (simp_all add: demo_stall_run_def eval_defs)
  from e h n m
    C5_backpain_once_per_traversal
      [where ev = "Fire 0 demo_env" and s = demo_oldman and evs = demo_stall_run and r = 0]
    C5_backpain_once_per_traversal
      [where ev = "Fire 0 demo_env"
         and s = "OldMan_run demo_stall_run (OldMan_step (Fire 0 demo_env) demo_oldman)"
         and evs = "[]" and r = 0]
  show ?thesis by simp
qed

text \<open>
  Claim C4, as stated: every archetype refuses attacks beyond a per-traversal budget.
  The old man has no such budget: five consecutive calls of \<^verbatim>\<open>tryToThrowNewspaper\<close>
  in the patrolling state, with no entry in between, spawn five newspapers, more than
  the only maximum the sources configure (the bully's \<open>MAX_THROWS = 4\<close>).
\<close>

theorem C4_oldman_throws_without_budget:
  "currentState demo_patrolling = Patrolling
 \<and> length (newspapers
      (OldMan_tryToThrowNewspaper demo_env (OldMan_tryToThrowNewspaper demo_env
        (OldMan_tryToThrowNewspaper demo_env (OldMan_tryToThrowNewspaper demo_env
          (OldMan_tryToThrowNewspaper demo_env demo_patrolling)))))) = 5
 \<and> MAX_THROWS = 4"
  by (simp add: eval_defs)

text \<open>
  Claim C4, amended. For the Bully, every step that starts a traversal resets
  \<open>throwCount\<close> to zero (unless the sprite is already destroyed), over any run within one
  traversal at most \<open>MAX_THROWS\<close> word bubbles are spawned, and \<^verbatim>\<open>tryToThrow\<close> changes
  nothing once \<open>throwCount\<close> has reached \<open>MAX_THROWS\<close>. The OldMan keeps no throw counter:
  each \<^verbatim>\<open>tryToThrowNewspaper\<close> in the patrolling state with a player present spawns a
  newspaper.
\<close>

theorem C4_attack_budget_bully_only:
  "(Bully_enters ev b \<and> \<not> Bully_gone b \<longrightarrow> throwCount (Bully_step ev b) = 0)
 \<and> (Bully_enters ev b \<and> Bully_oneTraversal evs (Bully_step ev b) \<longrightarrow>
      length (bubbleLog (Bully_run evs (Bully_step ev b))) \<le> length (bubbleLog b) + MAX_THROWS)
 \<and> (Bully_oneTraversal evs b \<longrightarrow>
      length (bubbleLog (Bully_run evs b)) \<le> length (bubbleLog b) + (MAX_THROWS - throwCount b))
 \<and> (MAX_THROWS \<le> throwCount b \<longrightarrow> Bully_tryToThrow e b = b)
 \<and> (currentState s = Patrolling \<and> student e = Some px \<longrightarrow>
      length (newspapers (OldMan_tryToThrowNewspaper e s)) = length (newspapers s) + 1)"
proof -
  have gen: "length (bubbleLog (Bully_run evs u)) \<le> length (bubbleLog u) + (MAX_THROWS - throwCount u)"
    if h: "Bully_oneTraversal evs u" for u
  proof -
    have "length (bubbleLog (Bully_run evs u)) \<le> b_pot (Bully_run evs u)"
      by (simp add: b_pot_def)
    also have "\<dots> = b_pot u"
      by (rule b_run_pot[OF h])
    finally show ?thesis by (simp add: b_pot_def)
  qed
  have ent: "length (bubbleLog (Bully_run evs (Bully_step ev b))) \<le> length (bubbleLog b) + MAX_THROWS"
    if en: "Bully_enters ev b" and h: "Bully_oneTraversal evs (Bully_step ev b)"
    using gen[OF h] b_enters_log[OF en] by simp
  have ref: "Bully_tryToThrow e b = b" if "MAX_THROWS \<le> throwCount b"
    using that by (simp add: Bully_tryToThrow_def)
  have om: "length (newspapers (OldMan_tryToThrowNewspaper e s)) = length (newspapers s) + 1"
    if "currentState s = Patrolling" "student e = Some px"
    using that by (simp add: OldMan_tryToThrowNewspaper_def OldMan_throwNewspaper_def Let_def)
  show ?thesis using gen[of b] ent ref om b_enters_resets[of ev b] by blast
qed

theorem C4_attack_budget_bully_only_witness:
  "Bully_enters (Fire 0 demo_env) demo_bully
 \<and> \<not> Bully_gone demo_bully
 \<and> throwCount (Bully_step (Fire 0 demo_env) demo_bully) = 0
 \<and> Bully_oneTraversal demo_charge_run (Bully_step (Fire 0 demo_env) demo_bully)
 \<and> length (bubbleLog (Bully_run demo_charge_run (Bully_step (Fire 0 demo_env) demo_bully))) = 4
 \<and> length (bubbleLog (Bully_run demo_charge_run (Bully_step (Fire 0 demo_env) demo_bully)))
      \<le> length (bubbleLog demo_bully) + MAX_THROWS
 \<and> MAX_THROWS \<le> throwCount (Bully_run demo_charge_run (Bully_step (Fire 0 demo_env) demo_bully))
 \<and> Bully_tryToThrow demo_env (Bully_run demo_charge_run (Bully_step (Fire 0 demo_env) demo_bully))
      = Bully_run demo_charge_run (Bully_step (Fire 0 demo_env) demo_bully)
 \<and> currentState demo_patrolling = Patrolling
 \<and> student demo_env = Some 400
 \<and> length (newspapers (OldMan_tryToThrowNewspaper demo_env demo_patrolling))
      = length (newspapers demo_patrolling) + 1"
proof -
  have en: "Bully_enters (Fire 0 demo_env) demo_bully" and ng: "\<not> Bully_gone demo_bully"
    by (simp_all add: eval_defs)
  have h: "Bully_oneTraversal demo_charge_run (Bully_step (Fire 0 demo_env) demo_bully)"
    by (simp add: demo_charge_run_def eval_defs)
  have n: "length (bubbleLog (Bully_run demo_charge_run (Bully_step (Fire 0 demo_env) demo_bully))) = 4"
    and m: "MAX_THROWS \<le> throwCount (Bully_run demo_charge_run (Bully_step (Fire 0 demo_env) demo_bully))"
    by (simp_all add: demo_charge_run_def eval_defs)
  have p: "currentState demo_patrolling = Patrolling" and q: "student demo_env = Some 400"
    by (simp_all add: eval_defs)
  from en ng h n m p q
    C4_attack_budget_bully_only
      [where ev = "Fire 0 demo_env" and b = demo_bully and evs = demo_charge_run
         and e = demo_env and s = demo_patrolling and px = 400]
    C4_attack_budget_bully_only
      [where ev = "Fire 0 demo_env"
         and b = "Bully_run demo_charge_run (Bully_step (Fire 0 demo_env) demo_bully)"
         and evs = "[]" and e = demo_env and s = demo_patrolling and px = 400]
  show ?thesis by simp
qed


section \<open>From attacking to waiting\<close>

lemma om_cb_not_exiting:
  "currentState s \<noteq> Exiting \<Longrightarrow> currentState (OldMan_callback cb e s) \<noteq> Exiting"
  by (cases cb) (auto simp: om_defs Let_def split: option.splits)

lemma om_step_not_exiting:
  "currentState s \<noteq> Exiting \<Longrightarrow> currentState (OldMan_step ev s) \<noteq> Exiting"
proof (cases ev)
  case (Fire h e)
  assume "currentState s \<noteq> Exiting"
  then have "currentState (s\<lparr>om_clock := expireTimer h (om_clock s)\<rparr>) \<noteq> Exiting" by simp
  from om_cb_not_exiting[OF this] Fire \<open>currentState s \<noteq> Exiting\<close>
  show ?thesis by (simp add: OldMan_fire_def)
next
  case (Update e p)
  assume "currentState s \<noteq> Exiting"
  with Update show ?thesis by (simp add: om_update_state)
next
  case (Physics dt)
  assume "currentState s \<noteq> Exiting"
  with Physics show ?thesis by simp
next
  case Cleanup
  assume "currentState s \<noteq> Exiting"
  with Cleanup show ?thesis
    by (auto simp: OldMan_cleanup_def OldMan_stopThrowingTimer_def destroy_def Let_def split: option.splits)
qed

lemma om_run_not_exiting:
  "currentState s \<noteq> Exiting \<Longrightarrow> currentState (OldMan_run evs s) \<noteq> Exiting"
  by (induction evs arbitrary: s) (simp_all add: om_step_not_exiting)

lemma b_cb_not_exiting:
  "currentState s \<noteq> Exiting \<Longrightarrow> currentState (Bully_callback cb e s) \<noteq> Exiting"
  by (cases cb) (auto simp: b_defs Let_def split: option.splits)

lemma b_step_not_exiting:
  "currentState s \<noteq> Exiting \<Longrightarrow> currentState (Bully_step ev s) \<noteq> Exiting"
proof (cases ev)
  case (Fire h e)
  assume "currentState s \<noteq> Exiting"
  then have "currentState (s\<lparr>b_clock := expireTimer h (b_clock s)\<rparr>) \<noteq> Exiting" by simp
  from b_cb_not_exiting[OF this] Fire \<open>currentState s \<noteq> Exiting\<close>
  show ?thesis by (simp add: Bully_fire_def)
next
  case (Update e p)
  assume "currentState s \<noteq> Exiting"
  with Update show ?thesis by (simp add: b_update_state)
next
  case (Physics dt)
  assume "currentState s \<noteq> Exiting"
  with Physics show ?thesis by simp
next
  case Cleanup
  assume "currentState s \<noteq> Exiting"
  with Cleanup show ?thesis
    by (auto simp: Bully_cleanup_def Bully_stopThrowingTimer_def destroy_def Let_def split: option.splits)
qed

lemma b_run_not_exiting:
  "currentState s \<noteq> Exiting \<Longrightarrow> currentState (Bully_run evs s) \<noteq> Exiting"
  by (induction evs arbitrary: s) (simp_all add: b_step_not_exiting)

lemma b_tryToThrow_state: "currentState (Bully_tryToThrow e b) = currentState b"
  by (auto simp: Bully_tryToThrow_def Bully_throwWordBubble_def Let_def split: option.splits)

lemma om_tryToThrow_state: "currentState (OldMan_tryToThrowNewspaper e s) = currentState s"
  by (auto simp: OldMan_tryToThrowNewspaper_def OldMan_throwNewspaper_def Let_def split: option.splits)

lemma om_update_exit:
  assumes "active s" "currentState s = Patrolling"
    "OldMan_exitedLeft (cam e) s \<or> OldMan_exitedRight (cam e) s"
  shows "currentState (OldMan_update e (Some px) s) = Waiting"
    "velocityX (OldMan_update e (Some px) s) = 0"
    "\<not> visible (OldMan_update e (Some px) s)"
    "sprite_x (OldMan_update e (Some px) s) = sprite_x s"
    "patrolDirection (OldMan_update e (Some px) s) = patrolDirection s"
  using assms
  by (auto simp: OldMan_update_def OldMan_startWaiting_def OldMan_stopWalkAnimation_def Let_def
      OldMan_exitedLeft_def OldMan_exitedRight_def)

lemma b_update_exit:
  assumes "\<not> Bully_gone b" "currentState b = Charging"
    "Bully_exitedLeft (cam e) b \<or> Bully_exitedRight (cam e) b"
  shows "currentState (Bully_update e (Some px) b) = Waiting"
    "velocityX (Bully_update e (Some px) b) = 0"
    "\<not> visible (Bully_update e (Some px) b)"
    "sprite_x (Bully_update e (Some px) b) = sprite_x b"
    "patrolDirection (Bully_update e (Some px) b) = patrolDirection b"
  using assms
  by (auto simp: Bully_update_def Bully_startWaiting_def Bully_stopWalkAnimation_def Let_def
      Bully_exitedLeft_def Bully_exitedRight_def Bully_gone_def)

lemma om_reentry_geometry:
  "sprite_x (OldMan_prepareReentry e s) =
     spec_spawnX (cam e) (if randomUnit e < 0.8 then Right else Left) OldMan_SPAWN_OFFSET"
  "patrolDirection (OldMan_prepareReentry e s) = (if randomUnit e < 0.8 then - 1 else 1)"
  "currentState (OldMan_prepareReentry e s) = Entering"
  by (simp_all add: OldMan_prepareReentry_def OldMan_startEntering_def OldMan_showEntryWarning_def
      spec_spawnX_def Let_def)

lemma b_reentry_geometry:
  assumes "\<not> Bully_gone b"
  shows "sprite_x (Bully_prepareReentry e b) =
     spec_spawnX (cam e) (if randomUnit e < 0.5 then Right else Left) Bully_SPAWN_OFFSET"
  "patrolDirection (Bully_prepareReentry e b) = (if randomUnit e < 0.5 then - 1 else 1)"
  "currentState (Bully_prepareReentry e b) = Entering"
  using assms
  by (simp_all add: Bully_prepareReentry_def Bully_startEntering_def Bully_gone_def
      spec_spawnX_def Let_def)

text \<open>
  Claim C7, as stated: crossing the exit threshold or exhausting the budget leads from
  Attacking to Exiting. A charging bully that has walked past the left threshold is
  put by \<^verbatim>\<open>update\<close> into the waiting state, not the exiting state; and a bully stays in
  the charging state both when the throw timer fires its fourth and last word bubble
  and when it fires again with the budget spent.
\<close>

theorem C7_attacking_exits_to_exiting_counterexample:
  "currentState demo_charging = Charging
 \<and> Bully_exitedLeft (cam demo_env) (Bully_step (Physics 11) demo_charging)
 \<and> currentState (Bully_update demo_env (Some 400) (Bully_step (Physics 11) demo_charging)) = Waiting
 \<and> currentState (Bully_update demo_env (Some 400) (Bully_step (Physics 11) demo_charging)) \<noteq> Exiting
 \<and> currentState demo_last_throw = Charging
 \<and> throwCount demo_last_throw = 3
 \<and> throwCount (Bully_step (Fire 3 demo_env) demo_last_throw) = MAX_THROWS
 \<and> length (bubbleLog (Bully_step (Fire 3 demo_env) demo_last_throw)) = 4
 \<and> currentState (Bully_step (Fire 3 demo_env) demo_last_throw) = Charging
 \<and> currentState (Bully_step (Fire 3 demo_env) (Bully_step (Fire 3 demo_env) demo_last_throw)) = Charging
 \<and> throwCount (demo_charging\<lparr>throwCount := 4\<rparr>) = MAX_THROWS
 \<and> currentState (Bully_tryToThrow demo_env (demo_charging\<lparr>throwCount := 4\<rparr>)) = Charging"
  by (simp add: eval_defs)

text \<open>
  Claim C7, amended. From the attacking state, crossing the exit threshold on the side
  of the patrol direction takes the sprite directly to Waiting: the velocity is set to
  zero and the sprite hidden, position and direction are left as they are. No throw
  attempt changes the state, neither the one that uses up the budget nor a refused
  one. No run ever reaches the Exiting state. The
  position is reset to the camera-relative spawn edge and the side re-rolled (80/20 for
  the OldMan, 50/50 for the Bully) later, when the re-entry timer runs
  \<^verbatim>\<open>prepareReentry\<close>.
\<close>

theorem C7_attacking_exits_straight_to_waiting:
  "(active s \<and> currentState s = Patrolling \<and>
      (OldMan_exitedLeft (cam e) s \<or> OldMan_exitedRight (cam e) s) \<longrightarrow>
        currentState (OldMan_update e (Some px) s) = Waiting
      \<and> velocityX (OldMan_update e (Some px) s) = 0
      \<and> \<not> visible (OldMan_update e (Some px) s)
      \<and> sprite_x (OldMan_update e (Some px) s) = sprite_x s
      \<and> patrolDirection (OldMan_update e (Some px) s) = patrolDirection s)
 \<and> (\<not> Bully_gone b \<and> currentState b = Charging \<and>
      (Bully_exitedLeft (cam e) b \<or> Bully_exitedRight (cam e) b) \<longrightarrow>
        currentState (Bully_update e (Some px) b) = Waiting
      \<and> velocityX (Bully_update e (Some px) b) = 0
      \<and> \<not> visible (Bully_update e (Some px) b)
      \<and> sprite_x (Bully_update e (Some px) b) = sprite_x b
      \<and> patrolDirection (Bully_update e (Some px) b) = patrolDirection b)
 \<and> (MAX_THROWS \<le> throwCount b \<longrightarrow> Bully_tryToThrow e b = b)
 \<and> currentState (Bully_tryToThrow e b) = currentState b
 \<and> currentState (OldMan_tryToThrowNewspaper e s) = currentState s
 \<and> (currentState s \<noteq> Exiting \<longrightarrow> currentState (OldMan_run evs s) \<noteq> Exiting)
 \<and> (currentState b \<noteq> Exiting \<longrightarrow> currentState (Bully_run evs b) \<noteq> Exiting)
 \<and> sprite_x (OldMan_prepareReentry e s) =
      spec_spawnX (cam e) (if randomUnit e < 0.8 then Right else Left) OldMan_SPAWN_OFFSET
 \<and> patrolDirection (OldMan_prepareReentry e s) = (if randomUnit e < 0.8 then - 1 else 1)
 \<and> (\<not> Bully_gone b \<longrightarrow>
        sprite_x (Bully_prepareReentry e b) =
          spec_spawnX (cam e) (if randomUnit e < 0.5 then Right else Left) Bully_SPAWN_OFFSET
      \<and> patrolDirection (Bully_prepareReentry e b) = (if randomUnit e < 0.5 then - 1 else 1))"
proof -
  have c1: "active s \<and> currentState s = Patrolling \<and>
      (OldMan_exitedLeft (cam e) s \<or> OldMan_exitedRight (cam e) s) \<longrightarrow>
        currentState (OldMan_update e (Some px) s) = Waiting
      \<and> velocityX (OldMan_update e (Some px) s) = 0
      \<and> \<not> visible (OldMan_update e (Some px) s)
      \<and> sprite_x (OldMan_update e (Some px) s) = sprite_x s
      \<and> patrolDirection (OldMan_update e (Some px) s) = patrolDirection s"
    using om_update_exit[of s e px] by simp
  have c2: "\<not> Bully_gone b \<and> currentState b = Charging \<and>
      (Bully_exitedLeft (cam e) b \<or> Bully_exitedRight (cam e) b) \<longrightarrow>
        currentState (Bully_update e (Some px) b) = Waiting
      \<and> velocityX (Bully_update e (Some px) b) = 0
      \<and> \<not> visible (Bully_update e (Some px) b)
      \<and> sprite_x (Bully_update e (Some px) b) = sprite_x b
      \<and> patrolDirection (Bully_update e (Some px) b) = patrolDirection b"
    using b_update_exit[of b e px] by simp
  have c3: "MAX_THROWS \<le> throwCount b \<longrightarrow> Bully_tryToThrow e b = b"
    by (simp add: Bully_tryToThrow_def)
  have c3a: "currentState (Bully_tryToThrow e b) = currentState b"
    by (rule b_tryToThrow_state)
  have c3b: "currentState (OldMan_tryToThrowNewspaper e s) = currentState s"
    by (rule om_tryToThrow_state)
  have c4: "currentState s \<noteq> Exiting \<longrightarrow> currentState (OldMan_run evs s) \<noteq> Exiting"
    using om_run_not_exiting[of s evs] by simp
  have c5: "currentState b \<noteq> Exiting \<longrightarrow> currentState (Bully_run evs b) \<noteq> Exiting"
    using b_run_not_exiting[of b evs] by simp
  have c6: "sprite_x (OldMan_prepareReentry e s) =
      spec_spawnX (cam e) (if randomUnit e < 0.8 then Right else Left) OldMan_SPAWN_OFFSET"
    and c7: "patrolDirection (OldMan_prepareReentry e s) = (if randomUnit e < 0.8 then - 1 else 1)"
    by (rule om_reentry_geometry)+
  have c8: "\<not> Bully_gone b \<longrightarrow>
        sprite_x (Bully_prepareReentry e b) =
          spec_spawnX (cam e) (if randomUnit e < 0.5 then Right else Left) Bully_SPAWN_OFFSET
      \<and> patrolDirection (Bully_prepareReentry e b) = (if randomUnit e < 0.5 then - 1 else 1)"
    using b_reentry_geometry[of b e] by simp
  show ?thesis
    by (intro conjI) (fact c1 c2 c3 c3a c3b c4 c5 c6 c7 c8)+
qed

theorem C7_attacking_exits_straight_to_waiting_witness:
  "active (OldMan_step (Physics 17) demo_patrolling)
 \<and> currentState (OldMan_step (Physics 17) demo_patrolling) = Patrolling
 \<and> OldMan_exitedLeft (cam demo_env) (OldMan_step (Physics 17) demo_patrolling)
 \<and> currentState (OldMan_update demo_env (Some 400) (OldMan_step (Physics 17) demo_patrolling)) = Waiting
 \<and> velocityX (OldMan_update demo_env (Some 400) (OldMan_step (Physics 17) demo_patrolling)) = 0
 \<and> sprite_x (OldMan_update demo_env (Some 400) (OldMan_step (Physics 17) demo_patrolling)) = - 120
 \<and> \<not> Bully_gone (Bully_step (Physics 11) demo_charging)
 \<and> currentState (Bully_step (Physics 11) demo_charging) = Charging
 \<and> Bully_exitedLeft (cam demo_env) (Bully_step (Physics 11) demo_charging)
 \<and> currentState (Bully_update demo_env (Some 400) (Bully_step (Physics 11) demo_charging)) = Waiting
 \<and> velocityX (Bully_update demo_env (Some 400) (Bully_step (Physics 11) demo_charging)) = 0
 \<and> sprite_x (Bully_update demo_env (Some 400) (Bully_step (Physics 11) demo_charging)) = - 200
 \<and> MAX_THROWS \<le> throwCount (Bully_run demo_charge_run (Bully_step (Fire 0 demo_env) demo_bully))
 \<and> Bully_tryToThrow demo_env (Bully_run demo_charge_run (Bully_step (Fire 0 demo_env) demo_bully))
      = Bully_run demo_charge_run (Bully_step (Fire 0 demo_env) demo_bully)
 \<and> throwCount (Bully_tryToThrow demo_env demo_last_throw) = MAX_THROWS
 \<and> currentState (Bully_tryToThrow demo_env demo_last_throw) = Charging
 \<and> currentState demo_oldman \<noteq> Exiting
 \<and> currentState (OldMan_run (Fire 0 demo_env # demo_stall_run) demo_oldman) \<noteq> Exiting
 \<and> currentState demo_bully \<noteq> Exiting
 \<and> currentState (Bully_run demo_tworounds demo_bully) \<noteq> Exiting
 \<and> sprite_x (OldMan_prepareReentry far_env demo_patrolling) = 5900
 \<and> sprite_x (Bully_prepareReentry far_env (Bully_step (Physics 11) demo_charging)) = 5900"
proof -
  have h: "active (OldMan_step (Physics 17) demo_patrolling)"
    "currentState (OldMan_step (Physics 17) demo_patrolling) = Patrolling"
    "OldMan_exitedLeft (cam demo_env) (OldMan_step (Physics 17) demo_patrolling)"
    "sprite_x (OldMan_step (Physics 17) demo_patrolling) = - 120"
    "\<not> Bully_gone (Bully_step (Physics 11) demo_charging)"
    "currentState (Bully_step (Physics 11) demo_charging) = Charging"
    "Bully_exitedLeft (cam demo_env) (Bully_step (Physics 11) demo_charging)"
    "sprite_x (Bully_step (Physics 11) demo_charging) = - 200"
    "MAX_THROWS \<le> throwCount (Bully_run demo_charge_run (Bully_step (Fire 0 demo_env) demo_bully))"
    "currentState demo_oldman \<noteq> Exiting"
    "currentState demo_bully \<noteq> Exiting"
    "throwCount (Bully_tryToThrow demo_env demo_last_throw) = MAX_THROWS"
    "currentState demo_last_throw = Charging"
    by (simp_all add: eval_defs demo_charge_run_def)
  from h
    C7_attacking_exits_straight_to_waiting
      [where s = "OldMan_step (Physics 17) demo_patrolling" and e = demo_env and px = 400
         and b = "Bully_step (Physics 11) demo_charging" and evs = "[]"]
    C7_attacking_exits_straight_to_waiting
      [where s = demo_oldman and e = demo_env and px = 400
         and b = "Bully_run demo_charge_run (Bully_step (Fire 0 demo_env) demo_bully)"
         and evs = "Fire 0 demo_env # demo_stall_run"]
    C7_attacking_exits_straight_to_waiting
      [where s = demo_patrolling and e = far_env and px = 400
         and b = demo_bully and evs = demo_tworounds]
    C7_attacking_exits_straight_to_waiting
      [where s = demo_patrolling and e = demo_env and px = 400
         and b = demo_last_throw and evs = "[]"]
    C7_attacking_exits_straight_to_waiting
      [where s = demo_patrolling and e = far_env and px = 400
         and b = "Bully_step (Physics 11) demo_charging" and evs = "[]"]
  show ?thesis by (simp add: spec_spawnX_def far_env_def Bully_SPAWN_OFFSET_def OldMan_SPAWN_OFFSET_def)
qed


section \<open>When attacks are issued\<close>

lemma om_throw_timer_clock:
  "om_clock (OldMan_startThrowingTimer s) =
     om_clock s @ [\<lparr>delay = OldMan_THROW_INTERVAL, loop = True, callback = OmCbThrow, status = Pending\<rparr>]"
  "throwTimer (OldMan_startThrowingTimer s) = Some (length (om_clock s))"
  "newspapers (OldMan_startThrowingTimer s) = newspapers s"
  by (simp_all add: OldMan_startThrowingTimer_def addTimer_def)

lemma b_tryToThrow_clock: "b_clock (Bully_tryToThrow e b) = b_clock b"
  by (auto simp: Bully_tryToThrow_def Bully_throwWordBubble_def Let_def split: option.splits)

lemma b_throw_timer_clock:
  "b_clock (Bully_startThrowingTimer e b) =
     b_clock b @ [\<lparr>delay = Bully_THROW_INTERVAL, loop = True, callback = BCbThrow, status = Pending\<rparr>]"
  "throwTimer (Bully_startThrowingTimer e b) = Some (length (b_clock b))"
  by (simp_all add: Bully_startThrowingTimer_def addTimer_def Let_def b_tryToThrow_clock)

lemma b_startCharging_throws:
  assumes "\<not> isDestroyed b" "active b" "hasScene b" "throwCount b < MAX_THROWS" "student e = Some px"
  shows "bubbleLog (Bully_startCharging e b) =
           bubbleLog b @ [(px + real_of_int (Between (- 50) 50 (randomInt e)), - 50)]"
    and "throwCount (Bully_startCharging e b) = throwCount b + 1"
    and "currentState (Bully_startCharging e b) = Charging"
  using assms
  by (simp_all add: Bully_startCharging_def Bully_startThrowingTimer_def Bully_tryToThrow_def
      Bully_throwWordBubble_def Let_def)

lemma om_startPatrolling_no_throw:
  "newspapers (OldMan_startPatrolling r s) = newspapers s"
  "currentState (OldMan_startPatrolling r s) = Patrolling"
  "throwTimer (OldMan_startPatrolling r s) = Some (length (om_clock s))"
  "om_clock (OldMan_startPatrolling r s) =
     om_clock s @ [\<lparr>delay = OldMan_THROW_INTERVAL, loop = True, callback = OmCbThrow, status = Pending\<rparr>,
                   \<lparr>delay = Between PATROL_TIME_MIN PATROL_TIME_MAX r, loop = False,
                    callback = OmCbPhase, status = Pending\<rparr>]"
  by (simp_all add: OldMan_startPatrolling_def OldMan_startThrowingTimer_def addTimer_def Let_def)

lemma om_recover_effect:
  "currentState (OldMan_recoverFromBackPain s) = Patrolling"
  "velocityX (OldMan_recoverFromBackPain s) = real_of_int (patrolDirection s) * OldMan_PATROL_SPEED"
  "om_clock (OldMan_recoverFromBackPain s) = om_clock s"
  "throwTimer (OldMan_recoverFromBackPain s) = throwTimer s"
  "newspapers (OldMan_recoverFromBackPain s) = newspapers s"
  "backPainThisPatrol (OldMan_recoverFromBackPain s) = backPainThisPatrol s"
  by (simp_all add: OldMan_recoverFromBackPain_def)

lemma removeTimer_length [simp]: "length (removeTimer h k) = length k"
  by (simp add: removeTimer_def)

lemma removeTimer_status:
  "i < length k \<Longrightarrow>
     status (removeTimer h k ! i) = (if i = h then Removed else status (k ! i))"
  by (simp add: removeTimer_def nth_list_update)

lemma om_startBackPain_effect:
  assumes "backPainThisPatrol s < MAX_BACKPAIN_PER_PATROL"
  shows "currentState (OldMan_startBackPain r s) = Backpain"
    and "velocityX (OldMan_startBackPain r s) = 0"
    and "throwTimer (OldMan_startBackPain r s) = None"
    and "backPainThisPatrol (OldMan_startBackPain r s) = backPainThisPatrol s + 1"
    and "newspapers (OldMan_startBackPain r s) = newspapers s"
  using assms
  by (auto simp: OldMan_startBackPain_def OldMan_stopThrowingTimer_def OldMan_stopWalkAnimation_def
      Let_def split: option.splits)

lemma om_startBackPain_removes_throw_timer:
  assumes "backPainThisPatrol s < MAX_BACKPAIN_PER_PATROL" "throwTimer s = Some h" "h < length (om_clock s)"
  shows "status (om_clock (OldMan_startBackPain r s) ! h) = Removed"
  using assms
  by (simp add: OldMan_startBackPain_def OldMan_stopThrowingTimer_def OldMan_stopWalkAnimation_def
      Let_def addTimer_def nth_append removeTimer_status)

text \<open>
  Claim C8, as stated: every archetype fires an immediate attack on entering Attacking.
  The old man, driven by his own timers from the constructor into the patrolling state
  with the player present, has thrown nothing at that moment.
\<close>

theorem C8_oldman_no_immediate_attack:
  "currentState (OldMan_fire 1 demo_env demo_entering) = Entering
 \<and> currentState (OldMan_fire 2 demo_env (OldMan_fire 1 demo_env demo_entering)) = Patrolling
 \<and> student demo_env = Some 400
 \<and> newspapers (OldMan_fire 2 demo_env (OldMan_fire 1 demo_env demo_entering)) = []"
  by (simp add: eval_defs)

text \<open>
  Claim C8, amended. Both throw timers repeat at a fixed interval (2000 ms for the
  Bully, 2500 ms for the OldMan) and their callbacks do nothing outside the attacking
  state. The Bully's \<^verbatim>\<open>startCharging\<close> also throws one word bubble at once (for a live
  bully with budget left and a player present). The OldMan's \<^verbatim>\<open>startPatrolling\<close> throws
  nothing at once, and neither does his resumption from back pain, which schedules no
  timer either.
\<close>

theorem C8_attack_timing:
  "(currentState b \<noteq> Charging \<longrightarrow> Bully_tryToThrow e b = b)
 \<and> (currentState s \<noteq> Patrolling \<longrightarrow> OldMan_tryToThrowNewspaper e s = s)
 \<and> b_clock (Bully_startThrowingTimer e b) =
      b_clock b @ [\<lparr>delay = 2000, loop = True, callback = BCbThrow, status = Pending\<rparr>]
 \<and> om_clock (OldMan_startThrowingTimer s) =
      om_clock s @ [\<lparr>delay = 2500, loop = True, callback = OmCbThrow, status = Pending\<rparr>]
 \<and> (\<not> isDestroyed b \<and> active b \<and> hasScene b \<and> throwCount b < MAX_THROWS \<and> student e = Some px \<longrightarrow>
      bubbleLog (Bully_startCharging e b) =
        bubbleLog b @ [(px + real_of_int (Between (- 50) 50 (randomInt e)), - 50)])
 \<and> newspapers (OldMan_startPatrolling r s) = newspapers s
 \<and> newspapers (OldMan_recoverFromBackPain s) = newspapers s
 \<and> om_clock (OldMan_recoverFromBackPain s) = om_clock s"
proof -
  have c1: "currentState b \<noteq> Charging \<longrightarrow> Bully_tryToThrow e b = b"
    by (simp add: Bully_tryToThrow_def)
  have c2: "currentState s \<noteq> Patrolling \<longrightarrow> OldMan_tryToThrowNewspaper e s = s"
    by (simp add: OldMan_tryToThrowNewspaper_def)
  have c3: "b_clock (Bully_startThrowingTimer e b) =
      b_clock b @ [\<lparr>delay = 2000, loop = True, callback = BCbThrow, status = Pending\<rparr>]"
    by (simp add: b_throw_timer_clock Bully_THROW_INTERVAL_def)
  have c4: "om_clock (OldMan_startThrowingTimer s) =
      om_clock s @ [\<lparr>delay = 2500, loop = True, callback = OmCbThrow, status = Pending\<rparr>]"
    by (simp add: om_throw_timer_clock OldMan_THROW_INTERVAL_def)
  have c5: "\<not> isDestroyed b \<and> active b \<and> hasScene b \<and> throwCount b < MAX_THROWS \<and> student e = Some px \<longrightarrow>
      bubbleLog (Bully_startCharging e b) =
        bubbleLog b @ [(px + real_of_int (Between (- 50) 50 (randomInt e)), - 50)]"
    using b_startCharging_throws(1)[of b e px] by simp
  have c6: "newspapers (OldMan_startPatrolling r s) = newspapers s"
    by (rule om_startPatrolling_no_throw)
  have c7: "newspapers (OldMan_recoverFromBackPain s) = newspapers s"
    and c8: "om_clock (OldMan_recoverFromBackPain s) = om_clock s"
    by (rule om_recover_effect)+
  show ?thesis
    by (intro conjI) (fact c1 c2 c3 c4 c5 c6 c7 c8)+
qed

theorem C8_attack_timing_witness:
  "currentState demo_bully \<noteq> Charging
 \<and> Bully_tryToThrow demo_env demo_bully = demo_bully
 \<and> currentState demo_oldman \<noteq> Patrolling
 \<and> OldMan_tryToThrowNewspaper demo_env demo_oldman = demo_oldman
 \<and> \<not> isDestroyed demo_bully \<and> active demo_bully \<and> hasScene demo_bully
 \<and> throwCount demo_bully < MAX_THROWS \<and> student demo_env = Some 400
 \<and> bubbleLog (Bully_startCharging demo_env demo_bully) = [(350, - 50)]
 \<and> newspapers (OldMan_startPatrolling 0 demo_oldman) = []"
proof -
  have h: "currentState demo_bully \<noteq> Charging" "currentState demo_oldman \<noteq> Patrolling"
    "\<not> isDestroyed demo_bully" "active demo_bully" "hasScene demo_bully"
    "throwCount demo_bully < MAX_THROWS" "student demo_env = Some 400"
    "bubbleLog demo_bully = []" "newspapers demo_oldman = []"
    "Between (- 50) 50 (randomInt demo_env) = - 50"
    by (simp_all add: eval_defs)
  from h C8_attack_timing [of demo_bully demo_env demo_oldman 400 0]
  show ?thesis by simp
qed


section \<open>Recovery from back pain\<close>

text \<open>
  Claim C9, as stated: after the recovery timer fires, interval-driven attacks are
  issued again. On the sample old man the throw timer was removed when back pain began
  and recovery starts none: after recovery no throw timer is pending and firing the old
  one throws nothing.
\<close>

theorem C9_no_attacks_after_recovery:
  "currentState (OldMan_run [Fire 4 demo_env, Fire 5 demo_env] demo_patrolling) = Backpain
 \<and> currentState (OldMan_run [Fire 4 demo_env, Fire 5 demo_env, Fire 6 demo_env] demo_patrolling) = Patrolling
 \<and> throwTimer (OldMan_run [Fire 4 demo_env, Fire 5 demo_env, Fire 6 demo_env] demo_patrolling) = None
 \<and> filter (\<lambda>t. callback t = OmCbThrow \<and> status t = Pending)
      (om_clock (OldMan_run [Fire 4 demo_env, Fire 5 demo_env, Fire 6 demo_env] demo_patrolling)) = []
 \<and> newspapers (OldMan_run [Fire 4 demo_env, Fire 5 demo_env, Fire 6 demo_env, Fire 3 demo_env] demo_patrolling)
      = newspapers demo_patrolling"
  by (simp add: eval_defs)

text \<open>
  Claim C9, amended. When the recovery timer fires the old man returns to the
  patrolling state and walks on in his patrol direction at \<open>PATROL_SPEED\<close>; recovery
  schedules no timer and throws nothing, the throw timer removed at the start of the
  stall stays removed, and a further \<^verbatim>\<open>startBackPain\<close> in that traversal changes nothing.
\<close>

theorem C9_recovery_resumes_walk_only:
  "currentState (OldMan_recoverFromBackPain s) = Patrolling
 \<and> velocityX (OldMan_recoverFromBackPain s) = real_of_int (patrolDirection s) * 60
 \<and> om_clock (OldMan_recoverFromBackPain s) = om_clock s
 \<and> throwTimer (OldMan_recoverFromBackPain s) = throwTimer s
 \<and> newspapers (OldMan_recoverFromBackPain s) = newspapers s
 \<and> (backPainThisPatrol s < MAX_BACKPAIN_PER_PATROL \<longrightarrow>
        throwTimer (OldMan_recoverFromBackPain (OldMan_startBackPain r s)) = None)
 \<and> (backPainThisPatrol s < MAX_BACKPAIN_PER_PATROL \<and> throwTimer s = Some h \<and> h < length (om_clock s) \<longrightarrow>
        status (om_clock (OldMan_recoverFromBackPain (OldMan_startBackPain r s)) ! h) = Removed)
 \<and> (backPainThisPatrol s < MAX_BACKPAIN_PER_PATROL \<longrightarrow>
        OldMan_startBackPain r' (OldMan_recoverFromBackPain (OldMan_startBackPain r s))
          = OldMan_recoverFromBackPain (OldMan_startBackPain r s))"
proof -
  have c1: "currentState (OldMan_recoverFromBackPain s) = Patrolling"
    and c2: "velocityX (OldMan_recoverFromBackPain s) = real_of_int (patrolDirection s) * 60"
    and c3: "om_clock (OldMan_recoverFromBackPain s) = om_clock s"
    and c4: "throwTimer (OldMan_recoverFromBackPain s) = throwTimer s"
    and c5: "newspapers (OldMan_recoverFromBackPain s) = newspapers s"
    by (simp_all add: om_recover_effect OldMan_PATROL_SPEED_def)
  have c6: "backPainThisPatrol s < MAX_BACKPAIN_PER_PATROL \<longrightarrow>
        throwTimer (OldMan_recoverFromBackPain (OldMan_startBackPain r s)) = None"
    by (simp add: om_recover_effect om_startBackPain_effect)
  have c7: "backPainThisPatrol s < MAX_BACKPAIN_PER_PATROL \<and> throwTimer s = Some h \<and> h < length (om_clock s) \<longrightarrow>
        status (om_clock (OldMan_recoverFromBackPain (OldMan_startBackPain r s)) ! h) = Removed"
    by (simp add: om_recover_effect om_startBackPain_removes_throw_timer)
  have c8: "backPainThisPatrol s < MAX_BACKPAIN_PER_PATROL \<longrightarrow>
        OldMan_startBackPain r' (OldMan_recoverFromBackPain (OldMan_startBackPain r s))
          = OldMan_recoverFromBackPain (OldMan_startBackPain r s)"
  proof
    assume a: "backPainThisPatrol s < MAX_BACKPAIN_PER_PATROL"
    have "MAX_BACKPAIN_PER_PATROL
            \<le> backPainThisPatrol (OldMan_recoverFromBackPain (OldMan_startBackPain r s))"
      using a by (simp add: om_recover_effect om_startBackPain_effect MAX_BACKPAIN_PER_PATROL_def)
    then show "OldMan_startBackPain r' (OldMan_recoverFromBackPain (OldMan_startBackPain r s))
          = OldMan_recoverFromBackPain (OldMan_startBackPain r s)"
      by (simp add: OldMan_startBackPain_def)
  qed
  show ?thesis
    by (intro conjI) (fact c1 c2 c3 c4 c5 c6 c7 c8)+
qed

theorem C9_recovery_resumes_walk_only_witness:
  "backPainThisPatrol demo_patrolling < MAX_BACKPAIN_PER_PATROL
 \<and> throwTimer demo_patrolling = Some 3
 \<and> 3 < length (om_clock demo_patrolling)
 \<and> currentState (OldMan_recoverFromBackPain (OldMan_startBackPain 0 demo_patrolling)) = Patrolling
 \<and> velocityX (OldMan_recoverFromBackPain (OldMan_startBackPain 0 demo_patrolling)) = - 60
 \<and> throwTimer (OldMan_recoverFromBackPain (OldMan_startBackPain 0 demo_patrolling)) = None
 \<and> status (om_clock (OldMan_recoverFromBackPain (OldMan_startBackPain 0 demo_patrolling)) ! 3) = Removed
 \<and> OldMan_startBackPain 0 (OldMan_recoverFromBackPain (OldMan_startBackPain 0 demo_patrolling))
      = OldMan_recoverFromBackPain (OldMan_startBackPain 0 demo_patrolling)"
proof -
  have h: "backPainThisPatrol demo_patrolling < MAX_BACKPAIN_PER_PATROL"
    "throwTimer demo_patrolling = Some 3" "3 < length (om_clock demo_patrolling)"
    "patrolDirection (OldMan_startBackPain 0 demo_patrolling) = - 1"
    by (simp_all add: eval_defs)
  from h
    C9_recovery_resumes_walk_only [where s = demo_patrolling and r = 0 and h = 3 and r' = 0]
    C9_recovery_resumes_walk_only
      [where s = "OldMan_startBackPain 0 demo_patrolling" and r = 0 and h = 3 and r' = 0]
  show ?thesis by simp
qed

section \<open>Spawn positions\<close>

text \<open>
  The bully's constructor, both enter-transit closures and both \<^verbatim>\<open>prepareReentry\<close>
  methods place the sprite at the camera-relative spawn edge.
\<close>

lemma spawn_sites_camera_relative:
  "sprite_x (Bully_constructor e x0 y0 fromRight) =
     spec_spawnX (cam e) (if fromRight then Right else Left) Bully_SPAWN_OFFSET"
  "sprite_x (OldMan_enterTransit c s) =
     spec_spawnX c (if patrolDirection s = - 1 then Right else Left) OldMan_SPAWN_OFFSET"
  "\<not> Bully_gone b \<Longrightarrow> sprite_x (Bully_enterTransit fromRight c b) =
     spec_spawnX c (if fromRight then Right else Left) Bully_SPAWN_OFFSET"
  "sprite_x (OldMan_prepareReentry e s) =
     spec_spawnX (cam e) (if randomUnit e < 0.8 then Right else Left) OldMan_SPAWN_OFFSET"
  "\<not> Bully_gone b \<Longrightarrow> sprite_x (Bully_prepareReentry e b) =
     spec_spawnX (cam e) (if randomUnit e < 0.5 then Right else Left) Bully_SPAWN_OFFSET"
  by (simp_all add: Bully_constructor_def OldMan_enterTransit_def Bully_enterTransit_def
      OldMan_prepareReentry_def Bully_prepareReentry_def OldMan_startEntering_def
      OldMan_showEntryWarning_def Bully_startEntering_def Bully_gone_def spec_spawnX_def Let_def)

lemma oldman_constructor_x: "sprite_x (OldMan_constructor c x0 y0) = 980"
  by (simp add: OldMan_constructor_def OldMan_SCREEN_RIGHT_def OldMan_SPAWN_OFFSET_def)

text \<open>
  Claim C1 asks that no spawn positioning uses a fixed world coordinate. The OldMan
  constructor does: it passes \<open>SCREEN_RIGHT + SPAWN_OFFSET = 980\<close> to the sprite whatever
  the camera. With an 800 wide camera at the origin the camera-relative right spawn edge
  is 900; with the camera at \<open>scrollX = 500\<close> it is 1400 (where the Bully constructor
  starts), while the old man is created visible at 980, inside the viewport.
\<close>

theorem C1_oldman_constructor_fixed_world_x:
  "sprite_x (OldMan_constructor \<lparr>scrollX = 0, width = 800\<rparr> 0 505) = 980
 \<and> spec_spawnX \<lparr>scrollX = 0, width = 800\<rparr> Right OldMan_SPAWN_OFFSET = 900
 \<and> sprite_x (OldMan_constructor \<lparr>scrollX = 500, width = 800\<rparr> 0 505) = 980
 \<and> spec_spawnX \<lparr>scrollX = 500, width = 800\<rparr> Right OldMan_SPAWN_OFFSET = 1400
 \<and> visible (OldMan_constructor \<lparr>scrollX = 500, width = 800\<rparr> 0 505)
 \<and> inViewport \<lparr>scrollX = 500, width = 800\<rparr>
      (sprite_x (OldMan_constructor \<lparr>scrollX = 500, width = 800\<rparr> 0 505))
 \<and> sprite_x (Bully_constructor (demo_env\<lparr>cam := \<lparr>scrollX = 500, width = 800\<rparr>\<rparr>) 0 505 True) = 1400"
  by (simp add: eval_defs)

section \<open>Disposal\<close>

text \<open>
  The Bully records every one-shot timer in \<open>pendingTimers\<close>; its cleanup sets
  \<open>isDestroyed\<close>, removes the recorded timers and the current throw timer, and every
  closure of a destroyed bully returns at once. A throw timer started in an earlier
  pass is not recorded anywhere once \<^verbatim>\<open>startThrowingTimer\<close> has overwritten
  \<open>throwTimer\<close>: it stays pending after cleanup, though firing it does nothing.
\<close>

lemma fold_removeTimer_length [simp]: "length (fold removeTimer hs k) = length k"
  by (induction hs arbitrary: k) simp_all

lemma fold_removeTimer_status:
  "i < length k \<Longrightarrow> i \<in> set hs \<or> status (k ! i) = Removed \<Longrightarrow>
     status (fold removeTimer hs k ! i) = Removed"
proof (induction hs arbitrary: k)
  case Nil
  then show ?case by simp
next
  case (Cons h hs)
  have "i \<in> set hs \<or> status (removeTimer h k ! i) = Removed"
    using Cons.prems by (auto simp: removeTimer_status)
  with Cons.IH[of "removeTimer h k"] Cons.prems(1) show ?case by simp
qed

lemma bully_cleanup_destroyed: "isDestroyed (Bully_cleanup s)"
  by (simp add: Bully_cleanup_def Bully_stopThrowingTimer_def destroy_def Let_def split: option.splits)

lemma bully_stale_callback_noop: "isDestroyed s \<Longrightarrow> Bully_callback cb e s = s"
  by (cases cb) (simp_all add: Bully_gone_def Bully_enterTransit_def Bully_tryToThrow_def)

lemma bully_cleanup_cancels_pending:
  assumes "h \<in> set (pendingTimers s)" "h < length (b_clock s)"
  shows "status (b_clock (Bully_cleanup s) ! h) = Removed"
  using assms
  by (auto simp: Bully_cleanup_def Bully_stopThrowingTimer_def destroy_def Let_def
      removeTimer_status fold_removeTimer_status split: option.splits)

lemma bully_cleanup_cancels_throwTimer:
  assumes "throwTimer s = Some h" "h < length (b_clock s)"
  shows "status (b_clock (Bully_cleanup s) ! h) = Removed"
  using assms
  by (auto simp: Bully_cleanup_def Bully_stopThrowingTimer_def destroy_def Let_def
      removeTimer_status split: option.splits)

lemma bully_first_throw_timer_survives_cleanup:
  "isPending 3 (b_clock (Bully_run demo_tworounds demo_bully))
 \<and> callback (b_clock (Bully_run demo_tworounds demo_bully) ! 3) = BCbThrow
 \<and> loop (b_clock (Bully_run demo_tworounds demo_bully) ! 3)
 \<and> throwTimer (Bully_run (butlast demo_tworounds) demo_bully) = Some 7
 \<and> Bully_fire 3 demo_env (Bully_run demo_tworounds demo_bully) = Bully_run demo_tworounds demo_bully"
  by (simp add: demo_tworounds_def eval_defs)

text \<open>
  On a live sprite the closures return what the OldMan section computes; on a disposed
  one the start, enter-transit, patrol, recovery and re-entry closures throw.
\<close>

lemmas om_call_defs = OldMan_startEntering_call_def OldMan_enterTransit_call_def
  OldMan_startPatrolling_call_def OldMan_startBackPain_call_def
  OldMan_recoverFromBackPain_call_def OldMan_prepareReentry_call_def
  OldMan_tryToThrowNewspaper_call_def OldMan_cleanup_call_def OldMan_clock_fires_def

lemma oldman_closure_live:
  "hasScene s \<Longrightarrow> hasBody s \<Longrightarrow> OldMan_closure cb e s = Returned (OldMan_callback cb e s)"
  by (cases cb)
     (simp_all add: om_call_defs OldMan_startBackPain_def OldMan_tryToThrowNewspaper_def Let_def)

lemma oldman_clock_fires_live:
  "hasScene s \<Longrightarrow> hasBody s \<Longrightarrow> OldMan_clock_fires h e s = Returned (OldMan_fire h e s)"
  by (simp add: OldMan_clock_fires_def OldMan_fire_def oldman_closure_live)

lemma oldman_cleanup_live:
  "hasScene s \<Longrightarrow> OldMan_cleanup_call s = Returned (OldMan_cleanup s)"
  by (simp add: OldMan_cleanup_call_def OldMan_cleanup_def Let_def)

lemma oldman_stale_closure_throws:
  "\<not> hasScene s \<Longrightarrow> cb \<in> {OmCbStart, OmCbEnterTransit, OmCbPatrol, OmCbRecover, OmCbReentry} \<Longrightarrow>
     thrown (OldMan_closure cb e s) = Some TypeError"
  by (auto simp: om_call_defs)

text \<open>
  Claim C3 asks that disposal cancels every scheduled timer and that a stale callback
  does nothing. The OldMan's cleanup removes only \<open>throwTimer\<close> and \<open>phaseTimer\<close> and
  records no other timer. Disposed while entering, his enter-transit timer is still
  pending after cleanup; when the clock fires it the closure, which tests nothing,
  reads \<^verbatim>\<open>this.scene.cameras\<close> and throws a TypeError instead of returning. Disposed
  before his start timer has fired, that timer stays pending too, and its closure sets
  \<open>currentState\<close> to entering before it throws. A second cleanup throws as well.
\<close>

theorem C3_oldman_cleanup_leaves_enter_timer:
  "currentState demo_entering = Entering
 \<and> callback (om_clock demo_entering ! 1) = OmCbEnterTransit
 \<and> isPending 1 (om_clock demo_entering)
 \<and> OldMan_cleanup_call demo_entering = Returned (OldMan_cleanup demo_entering)
 \<and> \<not> hasScene (OldMan_cleanup demo_entering)
 \<and> isPending 1 (om_clock (OldMan_cleanup demo_entering))
 \<and> OldMan_clock_fires 1 demo_env (OldMan_cleanup demo_entering)
      = Threw TypeError
          ((OldMan_cleanup demo_entering)
             \<lparr>om_clock := expireTimer 1 (om_clock (OldMan_cleanup demo_entering))\<rparr>)
 \<and> currentState (OldMan_cleanup demo_oldman) = Waiting
 \<and> isPending 0 (om_clock (OldMan_cleanup demo_oldman))
 \<and> thrown (OldMan_clock_fires 0 demo_env (OldMan_cleanup demo_oldman)) = Some TypeError
 \<and> currentState (after (OldMan_clock_fires 0 demo_env (OldMan_cleanup demo_oldman))) = Entering
 \<and> thrown (OldMan_cleanup_call (OldMan_cleanup demo_entering)) = Some TypeError"
  by (simp add: eval_defs om_call_defs)

end
